theory Spec2Isabelle
  imports Main
begin

section \<open>Values that cross the wire\<close>

text \<open>
  A JSON value as \<open>JSON.parse\<close> returns it. An object is the list of its own
  properties; a property is read with \<open>map_of\<close>. A number is an integer, \<open>JNum\<close>;
  a number written with a fraction or an exponent is kept by its literal, \<open>JFloat\<close>,
  and is not computed with.
\<close>

datatype json =
    JNull
  | JBool bool
  | JNum int
  | JFloat string
  | JStr string
  | JArr "json list"
  | JObj "(string \<times> json) list"

text \<open>
  A JavaScript value that may be \<open>undefined\<close> is an \<open>option\<close>, with \<open>None\<close> for
  \<open>undefined\<close>. A field of the object \<open>querystring.parse\<close> returns is a string, or
  an array of strings when the key is repeated.
\<close>

datatype qsval = QStr string | QArr "string list"

text \<open>An exception that leaves a method of \<open>Protocol\<close>.\<close>

datatype exn =
    MissingArguments
  | TypeError
  | UnhandledError string

section \<open>Collaborators\<close>

text \<open>
  The libraries \<open>Protocol.js\<close> requires are not part of the repository; the engine is
  modelled over any implementation of them. \<open>None\<close> stands for a thrown exception in
  \<open>json_parse\<close>, \<open>buffer_from\<close> and \<open>private_decrypt\<close>, and for the result
  \<open>undefined\<close> in \<open>json_stringify\<close> (which is what \<open>JSON.stringify(undefined)\<close>
  returns).
  \<^item> \<open>qs_parse\<close> is \<open>querystring.parse\<close>, \<open>qs_stringify\<close> is
    \<open>querystring.stringify\<close> on the object given as the list of its properties;
  \<^item> \<open>json_parse\<close> and \<open>json_stringify\<close> are \<open>JSON.parse\<close> and \<open>JSON.stringify\<close>;
  \<^item> \<open>buffer_from\<close> is \<open>Buffer.from(_, "base64")\<close>;
  \<^item> \<open>private_decrypt\<close> is \<open>crypto.privateDecrypt(key, buffer).toString("utf8")\<close>.
\<close>

record collab =
  qs_parse :: "string \<Rightarrow> (string \<rightharpoonup> qsval)"
  qs_stringify :: "(string \<times> qsval option) list \<Rightarrow> string"
  json_parse :: "string \<Rightarrow> json option"
  json_stringify :: "json option \<Rightarrow> string option"
  buffer_from :: "json option \<Rightarrow> string option"
  private_decrypt :: "string \<Rightarrow> string \<Rightarrow> string option"

section \<open>The connection and its surroundings\<close>

datatype ready_state = CONNECTING | OPEN | CLOSING | CLOSED

text \<open>
  A transport handle: its address, its \<open>readyState\<close>, and whether the listeners
  registered with \<open>once\<close> are still attached.
\<close>

record sock =
  address :: string
  readyState :: ready_state
  closeOnce :: bool
  unexpectedOnce :: bool

record options =
  reconnect :: bool
  ignoreErrors :: bool
  reconnectDelay :: nat

text \<open>The fields of a \<open>Protocol\<close> instance; handles and timers are held by number.\<close>

record protocol =
  clientId :: string
  privateKey :: string
  opts :: options
  socket :: "nat option"
  reconnectTimeout :: "nat option"
  pingTimeout :: "nat option"
  disconnectEmitted :: bool

text \<open>
  The reply function of a fetch closes over the message id only, so it is
  represented by that id.
\<close>

datatype replyfn = ReplyFn qsval

datatype emitted =
    Connected
  | Disconnected int string
  | Push "qsval option" json
  | Fetch "qsval option" json replyfn
  | ErrorEvent string

datatype timer = ReconnectTimer | PingTimer

text \<open>What the engine does to the outside, in the order it does it.\<close>

datatype action =
    Emit emitted
  | Send nat string
  | CloseSock nat
  | NewSock nat string
  | SetTimeout nat timer nat
  | ClearTimeout nat

text \<open>
  The instance together with the store of handles, the pending timers, whether the
  application listens to \<open>error\<close>, and the trace of actions so far.
\<close>

record world =
  this :: protocol
  socks :: "nat \<Rightarrow> sock"
  nextSock :: nat
  timers :: "nat \<rightharpoonup> timer \<times> nat"
  nextTimer :: nat
  errorListener :: bool
  trace :: "action list"

definition ADDRESS :: string where
  "ADDRESS = ''wss://ws.webhookify.net''"

section \<open>Primitive effects\<close>

definition act :: "action \<Rightarrow> world \<Rightarrow> world" where
  "act a w = w\<lparr>trace := trace w @ [a]\<rparr>"

text \<open>
  \<open>EventEmitter.emit\<close>: the listeners are the application's and are taken to return
  normally; an \<open>error\<close> event nobody listens to is thrown.
\<close>

definition emit :: "emitted \<Rightarrow> world \<Rightarrow> exn + world" where
  "emit e w =
     (case e of
        ErrorEvent m \<Rightarrow> if errorListener w then Inr (act (Emit e) w) else Inl (UnhandledError m)
      | _ \<Rightarrow> Inr (act (Emit e) w))"

text \<open>
  \<open>socket.close()\<close>: the request is recorded; a handle that is not closed is
  closing from then on.
\<close>

definition sock_close :: "nat \<Rightarrow> world \<Rightarrow> world" where
  "sock_close h w =
     act (CloseSock h)
       (if readyState (socks w h) = CLOSED then w
        else w\<lparr>socks := (socks w)(h := (socks w h)\<lparr>readyState := CLOSING\<rparr>)\<rparr>)"

definition sock_send :: "nat \<Rightarrow> string \<Rightarrow> world \<Rightarrow> world" where
  "sock_send h m w = act (Send h m) w"

definition setTimeout :: "timer \<Rightarrow> nat \<Rightarrow> world \<Rightarrow> nat \<times> world" where
  "setTimeout k d w =
     (nextTimer w,
      act (SetTimeout (nextTimer w) k d)
        (w\<lparr>timers := (timers w)(nextTimer w \<mapsto> (k, d)), nextTimer := Suc (nextTimer w)\<rparr>))"

definition clearTimeout :: "nat \<Rightarrow> world \<Rightarrow> world" where
  "clearTimeout t w = act (ClearTimeout t) (w\<lparr>timers := (timers w)(t := None)\<rparr>)"

section \<open>Protocol.js\<close>

subsection \<open>constructor\<close>

text \<open>
  A JavaScript value as the caller may pass it for \<open>options\<close>. An object is the list
  of its own properties in the order they were set; a property may hold
  \<open>undefined\<close>. Numbers are integers.
\<close>

datatype jsvalue =
    VUndefined
  | VNull
  | VBool bool
  | VNum int
  | VStr string
  | VArr "jsvalue list"
  | VObj "(string \<times> jsvalue) list"

text \<open>Setting a property: it takes the place of the property of that name, or is added.\<close>

fun assign :: "string \<Rightarrow> 'v \<Rightarrow> (string \<times> 'v) list \<Rightarrow> (string \<times> 'v) list" where
  "assign k v [] = [(k, v)]"
| "assign k v ((k', v') # kvs) = (if k = k' then (k, v) # kvs else (k', v') # assign k v kvs)"

text \<open>Reading a property: \<open>undefined\<close> when the object has none of that name.\<close>

definition get_property :: "(string \<times> jsvalue) list \<Rightarrow> string \<Rightarrow> jsvalue" where
  "get_property obj k = (case map_of obj k of None \<Rightarrow> VUndefined | Some v \<Rightarrow> v)"

text \<open>
  \<open>mergeOptions(defaults, options)\<close> of the library merge-options, for defaults that
  hold no nested object, as the ones of the constructor: an \<open>options\<close> that is
  \<open>undefined\<close> is skipped; one that is not a plain object is a TypeError; of a plain
  object every own property, one set to \<open>undefined\<close> too, is set on the result in
  turn.
\<close>

definition mergeOptions :: "(string \<times> jsvalue) list \<Rightarrow> jsvalue \<Rightarrow> exn + (string \<times> jsvalue) list" where
  "mergeOptions d option =
     (case option of
        VUndefined \<Rightarrow> Inr d
      | VObj kvs \<Rightarrow> Inr (foldl (\<lambda>merged (k, v). assign k v merged) d kvs)
      | _ \<Rightarrow> Inl TypeError)"

definition default_options :: "(string \<times> jsvalue) list" where
  "default_options =
     [(''reconnect'', VBool True), (''ignoreErrors'', VBool True), (''reconnectDelay'', VNum 2000)]"

text \<open>
  How the engine reads the snapshot. \<open>reconnect\<close> and \<open>ignoreErrors\<close> are tested in an
  \<open>if\<close>, so what counts is whether the value is truthy. \<open>reconnectDelay\<close> is handed to
  \<open>setTimeout\<close>, which waits the milliseconds it is given when that is a number
  from 1 to 2147483647, and 1 ms otherwise; a string or an array that would convert
  to a number is outside the model and counts as the others. The snapshot is read
  here once, as no statement of \<open>Protocol.js\<close> changes it but the one that sets
  \<open>reconnect\<close> to \<open>false\<close>.
\<close>

fun truthy :: "jsvalue \<Rightarrow> bool" where
  "truthy VUndefined = False"
| "truthy VNull = False"
| "truthy (VBool b) = b"
| "truthy (VNum n) = (n \<noteq> 0)"
| "truthy (VStr s) = (s \<noteq> [])"
| "truthy (VArr vs) = True"
| "truthy (VObj kvs) = True"

fun timeout_ms :: "jsvalue \<Rightarrow> nat" where
  "timeout_ms (VNum n) = (if 1 \<le> n \<and> n \<le> 2147483647 then nat n else 1)"
| "timeout_ms _ = 1"

definition read_options :: "(string \<times> jsvalue) list \<Rightarrow> options" where
  "read_options obj =
     \<lparr>reconnect = truthy (get_property obj ''reconnect''),
      ignoreErrors = truthy (get_property obj ''ignoreErrors''),
      reconnectDelay = timeout_ms (get_property obj ''reconnectDelay'')\<rparr>"

definition defaults :: options where
  "defaults = \<lparr>reconnect = True, ignoreErrors = True, reconnectDelay = 2000\<rparr>"

text \<open>
  \<open>clientId == undefined\<close> holds of \<open>null\<close> and of \<open>undefined\<close>, which are both
  \<open>None\<close> here. The check of the two arguments comes first, the merge of the options
  after it.
\<close>

definition constructor :: "string option \<Rightarrow> string option \<Rightarrow> jsvalue \<Rightarrow> exn + protocol" where
  "constructor cid privateKeyRaw options =
     (case (cid, privateKeyRaw) of
        (Some c, Some k) \<Rightarrow>
          (case mergeOptions default_options options of
             Inl e \<Rightarrow> Inl e
           | Inr merged \<Rightarrow>
               Inr \<lparr>clientId = c, privateKey = k, opts = read_options merged,
                    socket = None, reconnectTimeout = None, pingTimeout = None,
                    disconnectEmitted = False\<rparr>)
      | _ \<Rightarrow> Inl MissingArguments)"

text \<open>The own property of a value under a name, if it is an object that has one.\<close>

fun own_property :: "jsvalue \<Rightarrow> string \<Rightarrow> jsvalue option" where
  "own_property (VObj kvs) k = map_of (rev kvs) k"
| "own_property _ k = None"

fun is_plain_object :: "jsvalue \<Rightarrow> bool" where
  "is_plain_object (VObj kvs) = True"
| "is_plain_object _ = False"

subsection \<open>encodeMessage, sendReply, sendError\<close>

definition encodeMessage :: "collab \<Rightarrow> qsval option \<Rightarrow> qsval option \<Rightarrow> json option \<Rightarrow> string" where
  "encodeMessage E type mid payload =
     qs_stringify E
       [(''type'', type), (''id'', mid),
        (''payload'', map_option QStr (json_stringify E payload))]"

text \<open>
  The promise \<open>sendReply\<close> and \<open>sendError\<close> return. \<open>this._socket.send\<close> is called
  inside the executor of the promise, so the TypeError of a \<open>null\<close> socket rejects
  the promise and is not thrown to the caller.
\<close>

datatype promise = Rejected exn | ResolvesOnSent

definition sendReply :: "collab \<Rightarrow> qsval option \<Rightarrow> json option \<Rightarrow> world \<Rightarrow> promise \<times> world" where
  "sendReply E mid payload w =
     (let message = encodeMessage E (Some (QStr ''reply'')) mid payload in
      case socket (this w) of
        None \<Rightarrow> (Rejected TypeError, w)
      | Some h \<Rightarrow> (ResolvesOnSent, sock_send h message w))"

definition sendError :: "collab \<Rightarrow> qsval option \<Rightarrow> string \<Rightarrow> world \<Rightarrow> promise \<times> world" where
  "sendError E mid err_message w =
     (let message = encodeMessage E (Some (QStr ''error'')) mid
                      (Some (JObj [(''message'', JStr err_message)])) in
      case socket (this w) of
        None \<Rightarrow> (Rejected TypeError, w)
      | Some h \<Rightarrow> (ResolvesOnSent, sock_send h message w))"

subsection \<open>The reply function of a fetch\<close>

definition generateReplyFunction :: "qsval \<Rightarrow> replyfn" where
  "generateReplyFunction mid = ReplyFn mid"

text \<open>
  Calling the function with \<open>(err, response)\<close>; \<open>err\<close> is \<open>None\<close> for \<open>null\<close> and
  the message of the Error otherwise.
\<close>

fun call_reply :: "collab \<Rightarrow> replyfn \<Rightarrow> string option \<Rightarrow> json option \<Rightarrow> world \<Rightarrow> promise \<times> world" where
  "call_reply E (ReplyFn mid) err response w = sendReply E (Some mid) response w"

subsection \<open>The handshake\<close>

definition bind_exn :: "exn + 'a \<Rightarrow> ('a \<Rightarrow> exn + 'b) \<Rightarrow> exn + 'b" where
  "bind_exn r f = (case r of Inl e \<Rightarrow> Inl e | Inr x \<Rightarrow> f x)"

text \<open>
  \<open>payload.challenge\<close>: reading a property of \<open>null\<close> is a TypeError; a value that
  is not an object has no such property.
\<close>

fun get_challenge :: "json \<Rightarrow> exn + json option" where
  "get_challenge JNull = Inl TypeError"
| "get_challenge (JObj kvs) = Inr (map_of kvs ''challenge'')"
| "get_challenge _ = Inr None"

text \<open>The expression inside \<open>try\<close>; \<open>None\<close> when it throws.\<close>

definition decrypt_challenge :: "collab \<Rightarrow> string \<Rightarrow> json option \<Rightarrow> string option" where
  "decrypt_challenge E key challenge =
     (case buffer_from E challenge of
        None \<Rightarrow> None
      | Some buf \<Rightarrow> private_decrypt E key buf)"

definition decrypt_failed :: string where
  "decrypt_failed = ''The provided private key failed to decrypt the challenge.''"

definition set_reconnect :: "bool \<Rightarrow> world \<Rightarrow> world" where
  "set_reconnect b w = w\<lparr>this := (this w)\<lparr>opts := (opts (this w))\<lparr>reconnect := b\<rparr>\<rparr>\<rparr>"

definition set_socket :: "nat option \<Rightarrow> world \<Rightarrow> world" where
  "set_socket s w = w\<lparr>this := (this w)\<lparr>socket := s\<rparr>\<rparr>"

definition handleChallenge :: "collab \<Rightarrow> qsval \<Rightarrow> json \<Rightarrow> world \<Rightarrow> exn + world" where
  "handleChallenge E mid payload w =
     bind_exn (get_challenge payload) (\<lambda>challenge.
       case decrypt_challenge E (privateKey (this w)) challenge of
         None \<Rightarrow>
           bind_exn (emit (ErrorEvent decrypt_failed) w) (\<lambda>w1.
             case socket (this w1) of
               None \<Rightarrow> Inr w1
             | Some h \<Rightarrow>
                 let w2 = set_reconnect False w1;
                     w3 = (if readyState (socks w2 h) \<noteq> CLOSED then sock_close h w2 else w2)
                 in Inr (set_socket None w3))
       | Some response \<Rightarrow>
           Inr (snd (sendReply E (Some mid) (Some (JObj [(''response'', JStr response)])) w)))"

subsection \<open>processMessage\<close>

text \<open>A repeated key reaches \<open>JSON.parse\<close> as an array, which it reads joined by commas.\<close>

fun join_comma :: "string list \<Rightarrow> string" where
  "join_comma [] = []"
| "join_comma [x] = x"
| "join_comma (x # xs) = x @ '','' @ join_comma xs"

fun toString :: "qsval \<Rightarrow> string" where
  "toString (QStr s) = s"
| "toString (QArr xs) = join_comma xs"

record message =
  m_type :: qsval
  m_id :: qsval
  m_plugin :: "qsval option"
  m_payload :: json

text \<open>The first half of \<open>processMessage\<close>, up to the parsed payload; \<open>None\<close> where it returns early.\<close>

definition decodeMessage :: "collab \<Rightarrow> string \<Rightarrow> message option" where
  "decodeMessage E msg =
     (let messageParsed = qs_parse E msg;
          plugin = messageParsed ''plugin''
      in case (messageParsed ''type'', messageParsed ''id'', messageParsed ''payload'') of
           (Some type, Some mid, Some payloadRaw) \<Rightarrow>
             if type \<notin> set [QStr ''push'', QStr ''fetch'', QStr ''challenge''] then None
             else (case json_parse E (toString payloadRaw) of
                     None \<Rightarrow> None
                   | Some payload \<Rightarrow>
                       Some \<lparr>m_type = type, m_id = mid, m_plugin = plugin, m_payload = payload\<rparr>)
         | _ \<Rightarrow> None)"

text \<open>The \<open>switch\<close> at its end.\<close>

definition dispatch :: "collab \<Rightarrow> message \<Rightarrow> world \<Rightarrow> exn + world" where
  "dispatch E m w =
     (if m_type m = QStr ''challenge'' then handleChallenge E (m_id m) (m_payload m) w
      else if m_type m = QStr ''push'' then emit (Push (m_plugin m) (m_payload m)) w
      else if m_type m = QStr ''fetch'' then
        emit (Fetch (m_plugin m) (m_payload m) (generateReplyFunction (m_id m))) w
      else Inr w)"

definition processMessage :: "collab \<Rightarrow> string \<Rightarrow> world \<Rightarrow> exn + world" where
  "processMessage E msg w =
     (case decodeMessage E msg of
        None \<Rightarrow> Inr w
      | Some m \<Rightarrow> dispatch E m w)"

subsection \<open>_reconnect and connect\<close>

definition schedule_reconnect :: "world \<Rightarrow> world" where
  "schedule_reconnect w =
     (if reconnectTimeout (this w) \<noteq> None then w
      else let (t, w1) = setTimeout ReconnectTimer (reconnectDelay (opts (this w))) w
           in w1\<lparr>this := (this w1)\<lparr>reconnectTimeout := Some t\<rparr>\<rparr>)"

text \<open>
  \<open>new WebSocket(address)\<close> with the five listeners: a fresh handle, connecting, its
  \<open>once\<close> listeners attached.
\<close>

definition open_socket :: "world \<Rightarrow> world" where
  "open_socket w =
     (let h = nextSock w;
          addr = ADDRESS @ ''/'' @ clientId (this w);
          w1 = act (NewSock h addr)
                 (w\<lparr>socks := (socks w)(h := \<lparr>address = addr, readyState = CONNECTING,
                                                closeOnce = True, unexpectedOnce = True\<rparr>),
                     nextSock := Suc h\<rparr>)
      in set_socket (Some h) w1)"

definition connect :: "world \<Rightarrow> world" where
  "connect w =
     (let w1 = (case pingTimeout (this w) of
                  None \<Rightarrow> w
                | Some t \<Rightarrow> (let w0 = clearTimeout t w in w0\<lparr>this := (this w0)\<lparr>pingTimeout := None\<rparr>\<rparr>))
      in case socket (this w1) of
           None \<Rightarrow> open_socket w1
         | Some h \<Rightarrow>
             if readyState (socks w1 h) \<noteq> CLOSED then sock_close h w1
             else open_socket (set_socket None w1))"

subsection \<open>The listeners \<open>connect\<close> attaches\<close>

definition set_disconnectEmitted :: "bool \<Rightarrow> world \<Rightarrow> world" where
  "set_disconnectEmitted b w = w\<lparr>this := (this w)\<lparr>disconnectEmitted := b\<rparr>\<rparr>"

definition on_open :: "world \<Rightarrow> exn + world" where
  "on_open w = emit Connected (set_disconnectEmitted False w)"

definition on_close :: "int \<Rightarrow> string \<Rightarrow> world \<Rightarrow> exn + world" where
  "on_close code reason w =
     bind_exn (if \<not> disconnectEmitted (this w)
               then emit (Disconnected code reason) (set_disconnectEmitted True w)
               else Inr w) (\<lambda>w1.
       if reconnect (opts (this w1)) then Inr (schedule_reconnect w1) else Inr w1)"

definition on_unexpected_response :: "int \<Rightarrow> world \<Rightarrow> exn + world" where
  "on_unexpected_response statusCode w =
     bind_exn (if \<not> disconnectEmitted (this w)
               then emit (Disconnected statusCode []) (set_disconnectEmitted True w)
               else Inr w) (\<lambda>w1.
       if reconnect (opts (this w1)) then Inr (schedule_reconnect w1) else Inr w1)"

definition on_error :: "string \<Rightarrow> world \<Rightarrow> exn + world" where
  "on_error err w = (if \<not> ignoreErrors (opts (this w)) then emit (ErrorEvent err) w else Inr w)"

definition on_message :: "collab \<Rightarrow> string \<Rightarrow> world \<Rightarrow> exn + world" where
  "on_message E data w = processMessage E data w"

definition on_ping :: "world \<Rightarrow> world" where
  "on_ping w =
     (let w1 = (case pingTimeout (this w) of None \<Rightarrow> w | Some t \<Rightarrow> clearTimeout t w);
          (t, w2) = setTimeout PingTimer 30000 w1
      in w2\<lparr>this := (this w2)\<lparr>pingTimeout := Some t\<rparr>\<rparr>)"

subsection \<open>The timer callbacks\<close>

definition reconnect_timeout :: "world \<Rightarrow> world" where
  "reconnect_timeout w = connect (w\<lparr>this := (this w)\<lparr>reconnectTimeout := None\<rparr>\<rparr>)"

definition ping_timeout :: "world \<Rightarrow> exn + world" where
  "ping_timeout w =
     bind_exn (emit (Disconnected 0 ''Ping timeout'') w) (\<lambda>w1.
       let w2 = w1\<lparr>this := (this w1)\<lparr>pingTimeout := None\<rparr>\<rparr>
       in if reconnect (opts (this w2)) then Inr (schedule_reconnect w2) else Inr w2)"

section \<open>The event loop\<close>

text \<open>
  What can happen to a connection: the application calls \<open>connect\<close> or a reply
  function, the transport fires an event of a handle, a timer runs out.
\<close>

datatype event =
    App_connect
  | App_reply replyfn "string option" "json option"
  | Sock_open nat
  | Sock_closed nat int string
  | Sock_unexpected nat int
  | Sock_error nat string
  | Sock_message nat string
  | Sock_ping nat
  | Timer_fire nat

definition set_readyState :: "nat \<Rightarrow> ready_state \<Rightarrow> world \<Rightarrow> world" where
  "set_readyState h r w = w\<lparr>socks := (socks w)(h := (socks w h)\<lparr>readyState := r\<rparr>)\<rparr>"

text \<open>
  The transport sets \<open>readyState\<close> before it fires \<open>open\<close> and \<open>close\<close>; a listener
  attached with \<open>once\<close> is detached before it runs; a timer that fires is no longer
  pending.
\<close>

definition step :: "collab \<Rightarrow> event \<Rightarrow> world \<Rightarrow> exn + world" where
  "step E ev w =
     (case ev of
        App_connect \<Rightarrow> Inr (connect w)
      | App_reply f err response \<Rightarrow> Inr (snd (call_reply E f err response w))
      | Sock_open h \<Rightarrow> on_open (set_readyState h OPEN w)
      | Sock_closed h code reason \<Rightarrow>
          (let w1 = set_readyState h CLOSED w in
           if closeOnce (socks w1 h)
           then on_close code reason (w1\<lparr>socks := (socks w1)(h := (socks w1 h)\<lparr>closeOnce := False\<rparr>)\<rparr>)
           else Inr w1)
      | Sock_unexpected h statusCode \<Rightarrow>
          (if unexpectedOnce (socks w h)
           then on_unexpected_response statusCode
                  (w\<lparr>socks := (socks w)(h := (socks w h)\<lparr>unexpectedOnce := False\<rparr>)\<rparr>)
           else Inr w)
      | Sock_error h err \<Rightarrow> on_error err w
      | Sock_message h data \<Rightarrow> on_message E data w
      | Sock_ping h \<Rightarrow> Inr (on_ping w)
      | Timer_fire t \<Rightarrow>
          (case timers w t of
             None \<Rightarrow> Inr w
           | Some (k, d) \<Rightarrow>
               (let w1 = w\<lparr>timers := (timers w)(t := None)\<rparr> in
                case k of
                  ReconnectTimer \<Rightarrow> Inr (reconnect_timeout w1)
                | PingTimer \<Rightarrow> ping_timeout w1)))"

text \<open>A run of events; it stops at the first exception.\<close>

fun run :: "collab \<Rightarrow> event list \<Rightarrow> world \<Rightarrow> exn + world" where
  "run E [] w = Inr w"
| "run E (ev # evs) w = bind_exn (step E ev w) (run E evs)"

text \<open>A new instance, before \<open>connect\<close>: no handle, no timer, nothing done yet.\<close>

definition closed_sock :: sock where
  "closed_sock = \<lparr>address = [], readyState = CLOSED, closeOnce = False, unexpectedOnce = False\<rparr>"

definition init_world :: "protocol \<Rightarrow> bool \<Rightarrow> world" where
  "init_world p listens =
     \<lparr>this = p, socks = (\<lambda>_. closed_sock), nextSock = 0, timers = Map.empty, nextTimer = 0,
      errorListener = listens, trace = []\<rparr>"

section \<open>Reachable worlds\<close>

text \<open>
  When the transport can fire an event of a handle: \<open>open\<close> and
  \<open>unexpected-response\<close> while it connects, \<open>message\<close> and \<open>ping\<close> once it is open
  and until it is closed, \<open>close\<close> and \<open>error\<close> until it is closed. A timer fires
  while it is pending. The application may call in at any time.
\<close>

fun enabled :: "world \<Rightarrow> event \<Rightarrow> bool" where
  "enabled w (Sock_open h) = (readyState (socks w h) = CONNECTING)"
| "enabled w (Sock_closed h code reason) = (readyState (socks w h) \<noteq> CLOSED)"
| "enabled w (Sock_unexpected h statusCode) = (readyState (socks w h) = CONNECTING)"
| "enabled w (Sock_error h err) = (readyState (socks w h) \<noteq> CLOSED)"
| "enabled w (Sock_message h data) = (readyState (socks w h) \<in> {OPEN, CLOSING})"
| "enabled w (Sock_ping h) = (readyState (socks w h) \<in> {OPEN, CLOSING})"
| "enabled w (Timer_fire t) = (timers w t \<noteq> None)"
| "enabled w App_connect = True"
| "enabled w (App_reply f err response) = True"

text \<open>
  The worlds a connection can be in: it starts from a constructed instance and takes
  enabled steps. A step that throws leaves the world as it was.
\<close>

inductive reachable :: "collab \<Rightarrow> world \<Rightarrow> bool" for E :: collab where
  reach_start: "constructor cid key ov = Inr p \<Longrightarrow> reachable E (init_world p listens)"
| reach_step: "reachable E w \<Longrightarrow> enabled w ev \<Longrightarrow> step E ev w = Inr w' \<Longrightarrow> reachable E w'"

text \<open>Every handle other than the one the instance holds is closing or closed.\<close>

definition untracked_closing :: "world \<Rightarrow> bool" where
  "untracked_closing w =
     (\<forall>h. socket (this w) \<noteq> Some h \<longrightarrow> readyState (socks w h) \<in> {CLOSING, CLOSED})"

text \<open>A handle that has not been created is closed.\<close>

definition fresh_closed :: "world \<Rightarrow> bool" where
  "fresh_closed w = (\<forall>h. nextSock w \<le> h \<longrightarrow> readyState (socks w h) = CLOSED)"

text \<open>
  Once a handle has been created, the instance holds none only after it has disabled
  reconnection.
\<close>

definition dropped_means_disabled :: "world \<Rightarrow> bool" where
  "dropped_means_disabled w =
     (socket (this w) = None \<longrightarrow> nextSock w = 0 \<or> \<not> reconnect (opts (this w)))"

section \<open>Reading the trace\<close>

text \<open>The events emitted and the frames sent so far.\<close>

definition emitted_events :: "world \<Rightarrow> emitted list" where
  "emitted_events w = [e. Emit e \<leftarrow> trace w]"

definition sent_frames :: "world \<Rightarrow> (nat \<times> string) list" where
  "sent_frames w = [(h, m). Send h m \<leftarrow> trace w]"

fun is_disconnected :: "emitted \<Rightarrow> bool" where
  "is_disconnected (Disconnected c r) = True"
| "is_disconnected _ = False"

text \<open>The two transport events that end a connection, and the count of \<open>disconnected\<close> events.\<close>

fun is_close_or_unexpected :: "event \<Rightarrow> bool" where
  "is_close_or_unexpected (Sock_closed h code reason) = True"
| "is_close_or_unexpected (Sock_unexpected h statusCode) = True"
| "is_close_or_unexpected _ = False"

definition disconnects :: "world \<Rightarrow> nat" where
  "disconnects w = length (filter is_disconnected (emitted_events w))"

text \<open>The count of \<open>disconnected\<close> events, plus one while the flag is clear.\<close>

definition budget :: "world \<Rightarrow> nat" where
  "budget w = disconnects w + (if disconnectEmitted (this w) then 0 else 1)"

section \<open>A test double for the collaborators\<close>

text \<open>
  The collaborators at the strings the examples below use, with the values Node
  computes there: \<open>querystring\<close> percent-escapes brackets, braces, quotes and colons.
\<close>

definition demo_escape :: "string \<Rightarrow> string" where
  \<open>demo_escape s =
     (if s = ''[1]'' then ''%5B1%5D''
      else if s = ''{"message":"boom"}'' then ''%7B%22message%22%3A%22boom%22%7D''
      else if s = ''{"response":"secret"}'' then ''%7B%22response%22%3A%22secret%22%7D''
      else s)\<close>

fun demo_repeat :: "string \<Rightarrow> string list \<Rightarrow> string" where
  "demo_repeat k [] = []"
| "demo_repeat k [x] = k @ ''='' @ demo_escape x"
| "demo_repeat k (x # xs) = k @ ''='' @ demo_escape x @ ''&'' @ demo_repeat k xs"

fun demo_pair :: "string \<times> qsval option \<Rightarrow> string" where
  "demo_pair (k, None) = k @ ''=''"
| "demo_pair (k, Some (QStr s)) = k @ ''='' @ demo_escape s"
| "demo_pair (k, Some (QArr xs)) = demo_repeat k xs"

fun demo_qs_stringify :: "(string \<times> qsval option) list \<Rightarrow> string" where
  "demo_qs_stringify [] = []"
| "demo_qs_stringify [kv] = demo_pair kv"
| "demo_qs_stringify (kv # kvs) = demo_pair kv @ ''&'' @ demo_qs_stringify kvs"

definition fetch_frame :: string where
  "fetch_frame = ''type=fetch&id=7&plugin=git&payload=%5B1%5D''"

definition push_frame :: string where
  "push_frame = ''type=push&id=7&payload=%5B1%5D''"

definition reply_frame :: string where
  "reply_frame = ''type=reply&id=7&payload=%5B1%5D''"

definition good_challenge_frame :: string where
  "good_challenge_frame = ''type=challenge&id=1&payload=%7B%22challenge%22%3A%22Y2lwaGVy%22%7D''"

definition bad_challenge_frame :: string where
  "bad_challenge_frame = ''type=challenge&id=1&payload=%7B%22challenge%22%3A%22YmFk%22%7D''"

definition null_challenge_frame :: string where
  "null_challenge_frame = ''type=challenge&id=1&payload=null''"

definition no_id_frame :: string where
  "no_id_frame = ''type=push&payload=%5B1%5D''"

definition bad_json_frame :: string where
  "bad_json_frame = ''type=push&id=7&payload=%7B''"

definition demo_qs_parse :: "string \<Rightarrow> (string \<rightharpoonup> qsval)" where
  \<open>demo_qs_parse s =
     (if s = fetch_frame then
        map_of [(''type'', QStr ''fetch''), (''id'', QStr ''7''), (''plugin'', QStr ''git''),
                (''payload'', QStr ''[1]'')]
      else if s = push_frame then
        map_of [(''type'', QStr ''push''), (''id'', QStr ''7''), (''payload'', QStr ''[1]'')]
      else if s = reply_frame then
        map_of [(''type'', QStr ''reply''), (''id'', QStr ''7''), (''payload'', QStr ''[1]'')]
      else if s = good_challenge_frame then
        map_of [(''type'', QStr ''challenge''), (''id'', QStr ''1''),
                (''payload'', QStr ''{"challenge":"Y2lwaGVy"}'')]
      else if s = bad_challenge_frame then
        map_of [(''type'', QStr ''challenge''), (''id'', QStr ''1''),
                (''payload'', QStr ''{"challenge":"YmFk"}'')]
      else if s = null_challenge_frame then
        map_of [(''type'', QStr ''challenge''), (''id'', QStr ''1''), (''payload'', QStr ''null'')]
      else if s = no_id_frame then
        map_of [(''type'', QStr ''push''), (''payload'', QStr ''[1]'')]
      else if s = bad_json_frame then
        map_of [(''type'', QStr ''push''), (''id'', QStr ''7''), (''payload'', QStr ''{'')]
      else Map.empty)\<close>

definition demo_json_stringify :: "json option \<Rightarrow> string option" where
  \<open>demo_json_stringify v =
     (case v of
        None \<Rightarrow> None
      | Some j \<Rightarrow>
          Some (if j = JArr [JNum 1] then ''[1]''
                else if j = JObj [(''message'', JStr ''boom'')] then ''{"message":"boom"}''
                else if j = JObj [(''response'', JStr ''secret'')] then ''{"response":"secret"}''
                else ''null''))\<close>

definition demo_json_parse :: "string \<Rightarrow> json option" where
  \<open>demo_json_parse s =
     (if s = ''[1]'' then Some (JArr [JNum 1])
      else if s = ''null'' then Some JNull
      else if s = ''{"challenge":"Y2lwaGVy"}'' then Some (JObj [(''challenge'', JStr ''Y2lwaGVy'')])
      else if s = ''{"challenge":"YmFk"}'' then Some (JObj [(''challenge'', JStr ''YmFk'')])
      else None)\<close>

definition demo_buffer_from :: "json option \<Rightarrow> string option" where
  "demo_buffer_from v =
     (if v = Some (JStr ''Y2lwaGVy'') then Some ''cipher''
      else if v = Some (JStr ''YmFk'') then Some ''bad''
      else None)"

definition demo_private_decrypt :: "string \<Rightarrow> string \<Rightarrow> string option" where
  "demo_private_decrypt key buf = (if key = ''PEM'' \<and> buf = ''cipher'' then Some ''secret'' else None)"

definition demo :: collab where
  "demo = \<lparr>qs_parse = demo_qs_parse, qs_stringify = demo_qs_stringify,
           json_parse = demo_json_parse, json_stringify = demo_json_stringify,
           buffer_from = demo_buffer_from, private_decrypt = demo_private_decrypt\<rparr>"

text \<open>An instance with the default options, and the world it starts in.\<close>

definition demo_protocol :: protocol where
  "demo_protocol =
     \<lparr>clientId = ''client'', privateKey = ''PEM'', opts = defaults, socket = None,
      reconnectTimeout = None, pingTimeout = None, disconnectEmitted = False\<rparr>"

definition demo_world :: world where
  "demo_world = init_world demo_protocol True"

text \<open>The result of a run, read through \<open>f\<close>; \<open>None\<close> when the run threw.\<close>

definition outcome :: "(world \<Rightarrow> 'a) \<Rightarrow> exn + world \<Rightarrow> 'a option" where
  "outcome f r = (case r of Inl e \<Rightarrow> None | Inr w \<Rightarrow> Some (f w))"

text \<open>The exception a run ended with, if any.\<close>

definition thrown :: "exn + world \<Rightarrow> exn option" where
  "thrown r = (case r of Inl e \<Rightarrow> Some e | Inr w \<Rightarrow> None)"

text \<open>The world after \<open>connect\<close> and the \<open>open\<close> event of the handle.\<close>

definition demo_open_world :: world where
  "demo_open_world =
     (case run demo [App_connect, Sock_open 0] demo_world of Inr w \<Rightarrow> w | Inl e \<Rightarrow> demo_world)"


section \<open>Properties\<close>

lemmas demo_defs = demo_def demo_qs_parse_def demo_json_parse_def demo_json_stringify_def
  demo_buffer_from_def demo_private_decrypt_def demo_escape_def
  fetch_frame_def push_frame_def reply_frame_def good_challenge_frame_def bad_challenge_frame_def
  null_challenge_frame_def no_id_frame_def bad_json_frame_def demo_world_def demo_protocol_def
  init_world_def defaults_def

subsection \<open>The test worlds\<close>

lemma demo_open_world_eq:
  "demo_open_world =
     \<lparr>this = \<lparr>clientId = ''client'', privateKey = ''PEM'', opts = defaults, socket = Some 0,
              reconnectTimeout = None, pingTimeout = None, disconnectEmitted = False\<rparr>,
      socks = (\<lambda>_. closed_sock)
                (0 := \<lparr>address = ''wss://ws.webhookify.net/client'', readyState = OPEN,
                       closeOnce = True, unexpectedOnce = True\<rparr>),
      nextSock = 1, timers = Map.empty, nextTimer = 0, errorListener = True,
      trace = [NewSock 0 ''wss://ws.webhookify.net/client'', Emit Connected]\<rparr>"
proof -
  have "run demo [App_connect, Sock_open 0] demo_world = Inr
     \<lparr>this = \<lparr>clientId = ''client'', privateKey = ''PEM'', opts = defaults, socket = Some 0,
              reconnectTimeout = None, pingTimeout = None, disconnectEmitted = False\<rparr>,
      socks = (\<lambda>_. closed_sock)
                (0 := \<lparr>address = ''wss://ws.webhookify.net/client'', readyState = OPEN,
                       closeOnce = True, unexpectedOnce = True\<rparr>),
      nextSock = 1, timers = Map.empty, nextTimer = 0, errorListener = True,
      trace = [NewSock 0 ''wss://ws.webhookify.net/client'', Emit Connected]\<rparr>"
    by (simp add: demo_defs step_def connect_def open_socket_def on_open_def emit_def
          act_def set_socket_def set_disconnectEmitted_def set_readyState_def
          bind_exn_def ADDRESS_def Let_def)
  then show ?thesis
    unfolding demo_open_world_def by simp
qed


subsection \<open>The constructor\<close>

lemma map_of_assign: "map_of (assign k v obj) = (map_of obj)(k \<mapsto> v)"
  by (induction obj) (auto simp: fun_eq_iff)

lemma map_of_merged:
  "map_of (foldl (\<lambda>merged (k, v). assign k v merged) d kvs) name =
     (case map_of (rev kvs) name of None \<Rightarrow> map_of d name | Some v \<Rightarrow> Some v)"
proof (induction kvs rule: rev_induct)
  case Nil
  then show ?case by simp
next
  case (snoc kv kvs)
  then show ?case
    by (cases kv) (simp add: map_of_assign)
qed

lemma get_property_merged:
  assumes "mergeOptions d options = Inr merged"
  shows "get_property merged name =
           (case own_property options name of None \<Rightarrow> get_property d name | Some v \<Rightarrow> v)"
proof (cases options)
  case (VObj kvs)
  then have "merged = foldl (\<lambda>merged (k, v). assign k v merged) d kvs"
    using assms by (simp add: mergeOptions_def)
  then show ?thesis
    using VObj by (simp add: get_property_def map_of_merged split: option.splits)
qed (use assms in \<open>simp_all add: mergeOptions_def\<close>)

text \<open>
  C9, as stated: the client id and the private key are both there and \<open>options\<close> is
  \<open>null\<close>. The constructor throws all the same, the TypeError of \<open>mergeOptions\<close>.
\<close>

theorem constructor_null_options_counterexample:
  "constructor (Some ''client'') (Some ''PEM'') VNull = Inl TypeError"
  by (simp add: constructor_def mergeOptions_def)

text \<open>
  C9, amended. The constructor throws "Missing arguments" exactly when the client id
  or the private key is absent. With both there it throws a TypeError exactly when
  \<open>options\<close> is neither \<open>undefined\<close> nor a plain object, and it throws nothing else.
  Otherwise it builds an instance without handle or timer, whose options are read
  from the merged snapshot: under every name the snapshot holds the property of the
  caller's \<open>options\<close> if they have one of that name, be it \<open>undefined\<close>, and else the
  default, the defaults being \<open>reconnect = true\<close>, \<open>ignoreErrors = true\<close>,
  \<open>reconnectDelay = 2000\<close>.
\<close>

theorem constructor_throws_or_merges:
  "(constructor cid key options = Inl MissingArguments) = (cid = None \<or> key = None)
   \<and> (constructor cid key options = Inl TypeError) =
       (cid \<noteq> None \<and> key \<noteq> None \<and> options \<noteq> VUndefined \<and> \<not> is_plain_object options)
   \<and> (\<forall>e. constructor cid key options = Inl e \<longrightarrow> e = MissingArguments \<or> e = TypeError)
   \<and> (\<forall>c k. cid = Some c \<and> key = Some k \<and> (options = VUndefined \<or> is_plain_object options) \<longrightarrow>
         (\<exists>merged.
            mergeOptions default_options options = Inr merged
            \<and> (\<forall>name. get_property merged name =
                  (case own_property options name of
                     Some v \<Rightarrow> v
                   | None \<Rightarrow> get_property default_options name))
            \<and> get_property default_options ''reconnect'' = VBool True
            \<and> get_property default_options ''ignoreErrors'' = VBool True
            \<and> get_property default_options ''reconnectDelay'' = VNum 2000
            \<and> constructor cid key options =
                Inr \<lparr>clientId = c, privateKey = k, opts = read_options merged,
                     socket = None, reconnectTimeout = None, pingTimeout = None,
                     disconnectEmitted = False\<rparr>))"
proof -
  have a: "(constructor cid key options = Inl MissingArguments) = (cid = None \<or> key = None)"
    by (cases cid; cases key; cases options) (simp_all add: constructor_def mergeOptions_def)
  have b: "(constructor cid key options = Inl TypeError) =
       (cid \<noteq> None \<and> key \<noteq> None \<and> options \<noteq> VUndefined \<and> \<not> is_plain_object options)"
    by (cases cid; cases key; cases options) (simp_all add: constructor_def mergeOptions_def)
  have c: "\<forall>e. constructor cid key options = Inl e \<longrightarrow> e = MissingArguments \<or> e = TypeError"
    by (cases cid; cases key; cases options) (simp_all add: constructor_def mergeOptions_def)
  have d: "\<forall>c k. cid = Some c \<and> key = Some k \<and> (options = VUndefined \<or> is_plain_object options) \<longrightarrow>
         (\<exists>merged.
            mergeOptions default_options options = Inr merged
            \<and> (\<forall>name. get_property merged name =
                  (case own_property options name of
                     Some v \<Rightarrow> v
                   | None \<Rightarrow> get_property default_options name))
            \<and> get_property default_options ''reconnect'' = VBool True
            \<and> get_property default_options ''ignoreErrors'' = VBool True
            \<and> get_property default_options ''reconnectDelay'' = VNum 2000
            \<and> constructor cid key options =
                Inr \<lparr>clientId = c, privateKey = k, opts = read_options merged,
                     socket = None, reconnectTimeout = None, pingTimeout = None,
                     disconnectEmitted = False\<rparr>)"
  proof (intro allI impI)
    fix c k
    assume h: "cid = Some c \<and> key = Some k \<and> (options = VUndefined \<or> is_plain_object options)"
    then obtain merged where m: "mergeOptions default_options options = Inr merged"
      by (cases options) (auto simp: mergeOptions_def)
    have "\<forall>name. get_property merged name =
                  (case own_property options name of
                     Some v \<Rightarrow> v
                   | None \<Rightarrow> get_property default_options name)"
      using get_property_merged [OF m] by (simp split: option.splits)
    moreover have "constructor cid key options =
                Inr \<lparr>clientId = c, privateKey = k, opts = read_options merged,
                     socket = None, reconnectTimeout = None, pingTimeout = None,
                     disconnectEmitted = False\<rparr>"
      using h m by (simp add: constructor_def)
    moreover have "get_property default_options ''reconnect'' = VBool True"
      "get_property default_options ''ignoreErrors'' = VBool True"
      "get_property default_options ''reconnectDelay'' = VNum 2000"
      by (simp_all add: get_property_def default_options_def)
    ultimately show "\<exists>merged.
            mergeOptions default_options options = Inr merged
            \<and> (\<forall>name. get_property merged name =
                  (case own_property options name of
                     Some v \<Rightarrow> v
                   | None \<Rightarrow> get_property default_options name))
            \<and> get_property default_options ''reconnect'' = VBool True
            \<and> get_property default_options ''ignoreErrors'' = VBool True
            \<and> get_property default_options ''reconnectDelay'' = VNum 2000
            \<and> constructor cid key options =
                Inr \<lparr>clientId = c, privateKey = k, opts = read_options merged,
                     socket = None, reconnectTimeout = None, pingTimeout = None,
                     disconnectEmitted = False\<rparr>"
      using m by blast
  qed
  show ?thesis
    using a b c d by blast
qed

theorem constructor_throws_or_merges_witness:
  "constructor (Some ''client'') (Some ''PEM'')
     (VObj [(''reconnectDelay'', VNum 500), (''reconnect'', VUndefined)]) =
     Inr \<lparr>clientId = ''client'', privateKey = ''PEM'',
          opts = \<lparr>reconnect = False, ignoreErrors = True, reconnectDelay = 500\<rparr>,
          socket = None, reconnectTimeout = None, pingTimeout = None, disconnectEmitted = False\<rparr>
   \<and> constructor (Some ''client'') (Some ''PEM'') VUndefined =
     Inr \<lparr>clientId = ''client'', privateKey = ''PEM'',
          opts = \<lparr>reconnect = True, ignoreErrors = True, reconnectDelay = 2000\<rparr>,
          socket = None, reconnectTimeout = None, pingTimeout = None, disconnectEmitted = False\<rparr>
   \<and> constructor None (Some ''PEM'') VUndefined = Inl MissingArguments
   \<and> constructor (Some ''client'') (Some ''PEM'') (VStr ''x'') = Inl TypeError"
proof -
  let ?o = "VObj [(''reconnectDelay'', VNum 500), (''reconnect'', VUndefined)]"
  obtain m where m: "\<forall>name. get_property m name =
                  (case own_property ?o name of
                     Some v \<Rightarrow> v
                   | None \<Rightarrow> get_property default_options name)"
    and c: "constructor (Some ''client'') (Some ''PEM'') ?o =
                Inr \<lparr>clientId = ''client'', privateKey = ''PEM'', opts = read_options m,
                     socket = None, reconnectTimeout = None, pingTimeout = None,
                     disconnectEmitted = False\<rparr>"
    using constructor_throws_or_merges [of "Some ''client''" "Some ''PEM''" ?o] by auto
  have "get_property m ''reconnect'' = VUndefined" "get_property m ''ignoreErrors'' = VBool True"
    "get_property m ''reconnectDelay'' = VNum 500"
    unfolding m [rule_format] by (simp_all add: get_property_def default_options_def)
  then have r: "read_options m = \<lparr>reconnect = False, ignoreErrors = True, reconnectDelay = 500\<rparr>"
    by (simp add: read_options_def)
  obtain m0 where m0: "\<forall>name. get_property m0 name =
                  (case own_property VUndefined name of
                     Some v \<Rightarrow> v
                   | None \<Rightarrow> get_property default_options name)"
    and c0: "constructor (Some ''client'') (Some ''PEM'') VUndefined =
                Inr \<lparr>clientId = ''client'', privateKey = ''PEM'', opts = read_options m0,
                     socket = None, reconnectTimeout = None, pingTimeout = None,
                     disconnectEmitted = False\<rparr>"
    using constructor_throws_or_merges [of "Some ''client''" "Some ''PEM''" VUndefined] by auto
  have "get_property m0 ''reconnect'' = VBool True" "get_property m0 ''ignoreErrors'' = VBool True"
    "get_property m0 ''reconnectDelay'' = VNum 2000"
    unfolding m0 [rule_format] by (simp_all add: get_property_def default_options_def)
  then have r0: "read_options m0 = \<lparr>reconnect = True, ignoreErrors = True, reconnectDelay = 2000\<rparr>"
    by (simp add: read_options_def)
  have t: "constructor None (Some ''PEM'') VUndefined = Inl MissingArguments"
    using constructor_throws_or_merges [of None "Some ''PEM''" VUndefined] by simp
  have u: "constructor (Some ''client'') (Some ''PEM'') (VStr ''x'') = Inl TypeError"
    using constructor_throws_or_merges [of "Some ''client''" "Some ''PEM''" "VStr ''x''"] by simp
  show ?thesis
    using c r c0 r0 t u by simp
qed

subsection \<open>The reply function\<close>

text \<open>
  C1. The reply function of a fetch is called with \<open>(Error("boom"), undefined)\<close> after
  the fetch with id 7 was dispatched on an open connection. The function passes its
  second argument to \<open>sendReply\<close> and never looks at the first: the frame sent is a
  \<open>reply\<close> frame with an empty payload field, not an \<open>error\<close> frame with the message.
  \<open>sendError\<close>, which nothing calls, would have sent that frame.
\<close>

theorem reply_function_ignores_error:
  "outcome trace
     (run demo [App_connect, Sock_open 0, Sock_message 0 fetch_frame,
                App_reply (ReplyFn (QStr ''7'')) (Some ''boom'') None] demo_world) =
   Some [NewSock 0 ''wss://ws.webhookify.net/client'', Emit Connected,
         Emit (Fetch (Some (QStr ''git'')) (JArr [JNum 1]) (ReplyFn (QStr ''7''))),
         Send 0 ''type=reply&id=7&payload='']
   \<and> sent_frames (snd (sendError demo (Some (QStr ''7'')) ''boom'' demo_open_world)) =
       [(0, ''type=error&id=7&payload=%7B%22message%22%3A%22boom%22%7D'')]"
  by code_simp

subsection \<open>Frames that are dropped\<close>

lemma decodeMessage_absent:
  assumes "qs_parse E msg ''type'' = None \<or> qs_parse E msg ''id'' = None
           \<or> qs_parse E msg ''payload'' = None
           \<or> (\<forall>t. qs_parse E msg ''type'' = Some t \<longrightarrow>
                  t \<noteq> QStr ''challenge'' \<and> t \<noteq> QStr ''push'' \<and> t \<noteq> QStr ''fetch'')
           \<or> (\<forall>r. qs_parse E msg ''payload'' = Some r \<longrightarrow> json_parse E (toString r) = None)"
  shows "decodeMessage E msg = None"
  using assms by (auto simp: decodeMessage_def Let_def split: option.splits)

text \<open>
  C4. A frame in which \<open>type\<close>, \<open>id\<close> or \<open>payload\<close> is missing, or whose \<open>type\<close> is
  none of \<open>challenge\<close>, \<open>push\<close>, \<open>fetch\<close>, or whose \<open>payload\<close> is not JSON, leaves the
  world as it was: \<open>processMessage\<close> returns without an exception, and the instance,
  the handles, the timers and the trace (so the events emitted and the frames sent)
  are unchanged. The same holds when the frame arrives as a \<open>message\<close> event.
\<close>

theorem malformed_frame_dropped:
  assumes "qs_parse E msg ''type'' = None \<or> qs_parse E msg ''id'' = None
           \<or> qs_parse E msg ''payload'' = None
           \<or> (\<forall>t. qs_parse E msg ''type'' = Some t \<longrightarrow>
                  t \<noteq> QStr ''challenge'' \<and> t \<noteq> QStr ''push'' \<and> t \<noteq> QStr ''fetch'')
           \<or> (\<forall>r. qs_parse E msg ''payload'' = Some r \<longrightarrow> json_parse E (toString r) = None)"
  shows "processMessage E msg w = Inr w \<and> step E (Sock_message h msg) w = Inr w"
  using decodeMessage_absent [OF assms]
  by (simp add: processMessage_def step_def on_message_def)

theorem malformed_frame_dropped_witness:
  "processMessage demo no_id_frame demo_world = Inr demo_world
   \<and> processMessage demo reply_frame demo_world = Inr demo_world
   \<and> processMessage demo bad_json_frame demo_world = Inr demo_world"
proof -
  have a: "qs_parse demo no_id_frame ''id'' = None"
    by (simp add: demo_defs)
  have b: "\<forall>t. qs_parse demo reply_frame ''type'' = Some t \<longrightarrow>
                  t \<noteq> QStr ''challenge'' \<and> t \<noteq> QStr ''push'' \<and> t \<noteq> QStr ''fetch''"
    by (simp add: demo_defs)
  have c: "\<forall>r. qs_parse demo bad_json_frame ''payload'' = Some r \<longrightarrow>
                 json_parse demo (toString r) = None"
    by (auto simp add: demo_defs)
  show ?thesis
    using malformed_frame_dropped [of demo no_id_frame demo_world 0] a
          malformed_frame_dropped [of demo reply_frame demo_world 0] b
          malformed_frame_dropped [of demo bad_json_frame demo_world 0] c
    by blast
qed

subsection \<open>Encoding and decoding\<close>





subsection \<open>The handshake succeeds\<close>

text \<open>
  C6, as stated: a handshake fails on the open handle 0, so that the instance requests
  its close and lets go of it. While the handle is closing a second challenge arrives
  on it, which decrypts. \<open>sendReply\<close> finds no handle to send on: no frame is sent.
\<close>

theorem reply_after_failed_handshake_counterexample:
  "outcome (\<lambda>w. (sent_frames w, socket (this w), readyState (socks w 0)))
     (run demo [App_connect, Sock_open 0, Sock_message 0 bad_challenge_frame,
                Sock_message 0 good_challenge_frame] demo_world) =
   Some ([], None, CLOSING)"
  by code_simp

text \<open>
  C6, amended. A challenge frame arrives whose payload has a \<open>challenge\<close> that decrypts
  to \<open>response\<close>. The message listener returns without an exception. If the instance
  holds a handle, the only thing the listener does is to send one frame on that
  handle: the \<open>reply\<close> frame encoded from the id of the challenge and the payload
  \<open>{response}\<close>. If the instance holds no handle, the listener does nothing. In both
  cases nothing is emitted, no error event in particular, and the instance is
  unchanged.
\<close>

theorem challenge_reply:
  assumes dec: "decodeMessage E msg = Some m"
    and ty: "m_type m = QStr ''challenge''"
    and ch: "get_challenge (m_payload m) = Inr c"
    and ok: "decrypt_challenge E (privateKey (this w)) c = Some response"
  shows "step E (Sock_message h' msg) w =
           Inr (case socket (this w) of
                  Some h \<Rightarrow>
                    w\<lparr>trace := trace w @
                      [Send h (encodeMessage E (Some (QStr ''reply'')) (Some (m_id m))
                                 (Some (JObj [(''response'', JStr response)])))]\<rparr>
                | None \<Rightarrow> w)"
  by (simp add: step_def on_message_def processMessage_def dec dispatch_def ty handleChallenge_def
        ch ok bind_exn_def sendReply_def sock_send_def act_def split: option.splits)

theorem challenge_reply_witness:
  "step demo (Sock_message 0 good_challenge_frame) demo_open_world =
     Inr (demo_open_world
            \<lparr>trace := trace demo_open_world @
               [Send 0 ''type=reply&id=1&payload=%7B%22response%22%3A%22secret%22%7D'']\<rparr>)"
proof -
  let ?m = "\<lparr>m_type = QStr ''challenge'', m_id = QStr ''1'', m_plugin = None,
              m_payload = JObj [(''challenge'', JStr ''Y2lwaGVy'')]\<rparr>"
  have dec: "decodeMessage demo good_challenge_frame = Some ?m"
    by code_simp
  have ok: "decrypt_challenge demo (privateKey (this demo_open_world))
              (Some (JStr ''Y2lwaGVy'')) = Some ''secret''"
    by code_simp
  have so: "socket (this demo_open_world) = Some 0"
    by (simp add: demo_open_world_eq)
  have enc: "encodeMessage demo (Some (QStr ''reply'')) (Some (QStr ''1''))
               (Some (JObj [(''response'', JStr ''secret'')])) =
             ''type=reply&id=1&payload=%7B%22response%22%3A%22secret%22%7D''"
    by code_simp
  show ?thesis
    using challenge_reply [of demo good_challenge_frame ?m "Some (JStr ''Y2lwaGVy'')"
            demo_open_world "''secret''" 0, OF dec _ _ ok]
    by (simp add: enc so)
qed

subsection \<open>The handshake fails\<close>

text \<open>Nothing the engine does touches the options, except the handshake failure.\<close>

lemma opts_schedule_reconnect [simp]: "opts (this (schedule_reconnect w)) = opts (this w)"
  by (simp add: schedule_reconnect_def setTimeout_def act_def)

lemma opts_connect [simp]: "opts (this (connect w)) = opts (this w)"
  by (simp add: connect_def open_socket_def set_socket_def sock_close_def clearTimeout_def act_def
        Let_def split: option.splits)

lemma opts_on_ping [simp]: "opts (this (on_ping w)) = opts (this w)"
  by (simp add: on_ping_def setTimeout_def clearTimeout_def act_def Let_def split: option.splits)

lemma emit_Inr: "emit e w = Inr w' \<Longrightarrow> w' = act (Emit e) w"
  by (auto simp: emit_def split: emitted.splits if_splits)

lemma this_act [simp]: "this (act a w) = this w"
  by (simp add: act_def)

lemma opts_sendReply [simp]: "opts (this (snd (sendReply E mid payload w))) = opts (this w)"
  by (simp add: sendReply_def sock_send_def act_def Let_def split: option.splits)

lemma opts_call_reply [simp]: "opts (this (snd (call_reply E f err response w))) = opts (this w)"
  by (cases f) simp

lemma handleChallenge_keeps_disabled:
  "handleChallenge E mid payload w = Inr w' \<Longrightarrow> \<not> reconnect (opts (this w)) \<Longrightarrow>
   \<not> reconnect (opts (this w'))"
  by (auto simp: handleChallenge_def bind_exn_def set_socket_def set_reconnect_def sock_close_def
        act_def Let_def dest!: emit_Inr split: sum.splits option.splits if_splits)

lemma step_keeps_disabled:
  "step E ev w = Inr w' \<Longrightarrow> \<not> reconnect (opts (this w)) \<Longrightarrow> \<not> reconnect (opts (this w'))"
  by (cases ev)
     (auto simp: step_def on_open_def on_close_def on_unexpected_response_def on_error_def
        on_message_def processMessage_def dispatch_def reconnect_timeout_def ping_timeout_def
        set_readyState_def set_disconnectEmitted_def bind_exn_def Let_def
        dest!: emit_Inr dest: handleChallenge_keeps_disabled
        split: sum.splits option.splits if_splits timer.splits replyfn.splits)

lemma run_keeps_disabled:
  "run E evs w = Inr w' \<Longrightarrow> \<not> reconnect (opts (this w)) \<Longrightarrow> \<not> reconnect (opts (this w'))"
proof (induction evs arbitrary: w)
  case Nil
  then show ?case by simp
next
  case (Cons ev evs)
  then show ?case
    by (auto simp: bind_exn_def split: sum.splits dest: step_keeps_disabled)
qed


lemma emitted_events_act [simp]:
  "emitted_events (act a w) = emitted_events w @ (case a of Emit e \<Rightarrow> [e] | _ \<Rightarrow> [])"
  by (cases a) (simp_all add: emitted_events_def act_def)

lemma sent_frames_act [simp]:
  "sent_frames (act a w) = sent_frames w @ (case a of Send h m \<Rightarrow> [(h, m)] | _ \<Rightarrow> [])"
  by (cases a) (simp_all add: sent_frames_def act_def)

lemma handleChallenge_failure:
  assumes "get_challenge payload = Inr c"
    and "decrypt_challenge E (privateKey (this w)) c = None"
    and "errorListener w"
    and "socket (this w) = Some h"
  shows "\<exists>w'. handleChallenge E mid payload w = Inr w'
           \<and> emitted_events w' = emitted_events w @ [ErrorEvent decrypt_failed]
           \<and> sent_frames w' = sent_frames w
           \<and> \<not> reconnect (opts (this w'))
           \<and> socket (this w') = None
           \<and> trace w' = trace w @ Emit (ErrorEvent decrypt_failed) #
                (if readyState (socks w h) \<noteq> CLOSED then [CloseSock h] else [])
           \<and> readyState (socks w' h) \<in> {CLOSING, CLOSED}"
  using assms
  by (simp add: handleChallenge_def bind_exn_def emit_def Let_def set_socket_def
        set_reconnect_def sock_close_def emitted_events_def sent_frames_def act_def)

lemma close_without_reconnect:
  assumes "\<not> reconnect (opts (this w))"
  shows "\<exists>w'. step E (Sock_closed h code reason) w = Inr w'
           \<and> timers w' = timers w \<and> nextTimer w' = nextTimer w
           \<and> reconnectTimeout (this w') = reconnectTimeout (this w)
           \<and> (trace w' = trace w \<or> trace w' = trace w @ [Emit (Disconnected code reason)])"
  using assms
  by (simp add: step_def on_close_def set_readyState_def bind_exn_def emit_def act_def
        set_disconnectEmitted_def Let_def)

text \<open>
  C10. The frame \<open>type=challenge&id=1&payload=null\<close> arrives on the open connection.
  Its payload is the JSON value \<open>null\<close>, and \<open>payload.challenge\<close> is read before the
  \<open>try\<close>: the TypeError leaves \<open>processMessage\<close> and the message listener, so no
  error event is emitted, reconnection is not disabled and the handle is not closed.
\<close>

theorem null_challenge_throws:
  "thrown (run demo [App_connect, Sock_open 0, Sock_message 0 null_challenge_frame] demo_world) =
     Some TypeError
   \<and> outcome (\<lambda>w. (emitted_events w, reconnect (opts (this w)), socket (this w)))
       (run demo [App_connect, Sock_open 0] demo_world) = Some ([Connected], True, Some 0)"
  by code_simp

text \<open>
  A payload that is not \<open>null\<close> and has no \<open>challenge\<close> does take the failure path,
  as \<open>Buffer.from(undefined, "base64")\<close> throws inside the \<open>try\<close>.
\<close>

lemma missing_challenge_fails:
  assumes "payload \<noteq> JNull" and "\<forall>kvs. payload = JObj kvs \<longrightarrow> map_of kvs ''challenge'' = None"
    and "buffer_from E None = None" and "errorListener w" and "socket (this w) = Some h"
  shows "\<exists>w'. handleChallenge E mid payload w = Inr w'
           \<and> emitted_events w' = emitted_events w @ [ErrorEvent decrypt_failed]
           \<and> \<not> reconnect (opts (this w')) \<and> socket (this w') = None"
proof -
  have "get_challenge payload = Inr None"
    using assms(1,2) by (cases payload) simp_all
  moreover have "decrypt_challenge E (privateKey (this w)) None = None"
    using assms(3) by (simp add: decrypt_challenge_def)
  ultimately show ?thesis
    using handleChallenge_failure [OF _ _ assms(4,5)] by blast
qed

subsection \<open>One \<open>disconnected\<close> per episode\<close>

lemma emitted_events_updates [simp]:
  "emitted_events (w\<lparr>this := p\<rparr>) = emitted_events w"
  "emitted_events (w\<lparr>socks := s\<rparr>) = emitted_events w"
  "emitted_events (w\<lparr>timers := t\<rparr>) = emitted_events w"
  "emitted_events (w\<lparr>nextTimer := n\<rparr>) = emitted_events w"
  "emitted_events (w\<lparr>nextSock := n\<rparr>) = emitted_events w"
  by (simp_all add: emitted_events_def)

lemma schedule_reconnect_emits_nothing [simp]:
  "emitted_events (schedule_reconnect w) = emitted_events w"
  "disconnectEmitted (this (schedule_reconnect w)) = disconnectEmitted (this w)"
  by (simp_all add: schedule_reconnect_def setTimeout_def)

lemma on_close_emits:
  "\<exists>w'. on_close code reason w = Inr w' \<and> disconnectEmitted (this w')
      \<and> emitted_events w' =
          emitted_events w @ (if disconnectEmitted (this w) then [] else [Disconnected code reason])"
  by (simp add: on_close_def bind_exn_def emit_def set_disconnectEmitted_def)

lemma on_unexpected_response_emits:
  "\<exists>w'. on_unexpected_response statusCode w = Inr w' \<and> disconnectEmitted (this w')
      \<and> emitted_events w' =
          emitted_events w @ (if disconnectEmitted (this w) then [] else [Disconnected statusCode []])"
  by (simp add: on_unexpected_response_def bind_exn_def emit_def set_disconnectEmitted_def)

lemma closed_step:
  "\<exists>w'. step E (Sock_closed h code reason) w = Inr w' \<and> budget w' \<le> budget w
      \<and> disconnects w \<le> disconnects w'
      \<and> (disconnectEmitted (this w) \<longrightarrow> disconnectEmitted (this w'))"
proof (cases "closeOnce (socks w h)")
  case True
  let ?w = "(set_readyState h CLOSED w)
              \<lparr>socks := (socks (set_readyState h CLOSED w))
                 (h := (socks (set_readyState h CLOSED w) h)\<lparr>closeOnce := False\<rparr>)\<rparr>"
  obtain w' where "on_close code reason ?w = Inr w'" "disconnectEmitted (this w')"
    "emitted_events w' =
       emitted_events ?w @ (if disconnectEmitted (this ?w) then [] else [Disconnected code reason])"
    using on_close_emits by blast
  moreover have "step E (Sock_closed h code reason) w = on_close code reason ?w"
    using True by (simp add: step_def set_readyState_def)
  ultimately show ?thesis
    by (auto simp: budget_def disconnects_def set_readyState_def)
next
  case False
  then show ?thesis
    by (simp add: step_def set_readyState_def budget_def disconnects_def)
qed

lemma unexpected_step:
  "\<exists>w'. step E (Sock_unexpected h statusCode) w = Inr w' \<and> budget w' \<le> budget w
      \<and> disconnects w \<le> disconnects w'
      \<and> (disconnectEmitted (this w) \<longrightarrow> disconnectEmitted (this w'))"
proof (cases "unexpectedOnce (socks w h)")
  case True
  let ?w = "w\<lparr>socks := (socks w)(h := (socks w h)\<lparr>unexpectedOnce := False\<rparr>)\<rparr>"
  obtain w' where "on_unexpected_response statusCode ?w = Inr w'" "disconnectEmitted (this w')"
    "emitted_events w' =
       emitted_events ?w @ (if disconnectEmitted (this ?w) then [] else [Disconnected statusCode []])"
    using on_unexpected_response_emits by blast
  moreover have "step E (Sock_unexpected h statusCode) w = on_unexpected_response statusCode ?w"
    using True by (simp add: step_def)
  ultimately show ?thesis
    by (auto simp: budget_def disconnects_def)
next
  case False
  then show ?thesis
    by (simp add: step_def)
qed

lemma close_or_unexpected_step:
  assumes "is_close_or_unexpected ev"
  shows "\<exists>w'. step E ev w = Inr w' \<and> budget w' \<le> budget w
           \<and> disconnects w \<le> disconnects w'
           \<and> (disconnectEmitted (this w) \<longrightarrow> disconnectEmitted (this w'))"
  using assms closed_step unexpected_step by (cases ev) simp_all

lemma close_or_unexpected_run:
  assumes "\<forall>ev \<in> set evs. is_close_or_unexpected ev"
  shows "\<exists>w'. run E evs w = Inr w' \<and> budget w' \<le> budget w
           \<and> disconnects w \<le> disconnects w'
           \<and> (disconnectEmitted (this w) \<longrightarrow> disconnectEmitted (this w'))"
  using assms
proof (induction evs arbitrary: w)
  case Nil
  then show ?case by simp
next
  case (Cons ev evs)
  obtain w1 where s1: "step E ev w = Inr w1" and m1: "budget w1 \<le> budget w"
    and l1: "disconnects w \<le> disconnects w1"
    and f1: "disconnectEmitted (this w) \<longrightarrow> disconnectEmitted (this w1)"
    using close_or_unexpected_step [of ev E w] Cons.prems by auto
  obtain w' where s2: "run E evs w1 = Inr w'" and m2: "budget w' \<le> budget w1"
    and l2: "disconnects w1 \<le> disconnects w'"
    and f2: "disconnectEmitted (this w1) \<longrightarrow> disconnectEmitted (this w')"
    using Cons.IH [of w1] Cons.prems by auto
  have "run E (ev # evs) w = Inr w'"
    using s1 s2 by (simp add: bind_exn_def)
  moreover have "budget w' \<le> budget w"
    using m1 m2 by simp
  moreover have "disconnects w \<le> disconnects w'"
    using l1 l2 by simp
  ultimately show ?case
    using f1 f2 by blast
qed

text \<open>
  The close and unexpected-response listeners share the flag: through any sequence of
  close and unexpected-response events alone, of any handles and in any order, the
  listeners return without an exception and at most one \<open>disconnected\<close> event is
  emitted; none is when the flag was already set. The open listener clears the flag
  and emits \<open>connected\<close>; with the flag clear, the first close event that finds its
  listener attached emits the one \<open>disconnected\<close> event and sets the flag.
\<close>

lemma close_and_unexpected_at_most_once:
  assumes "\<forall>ev \<in> set evs. is_close_or_unexpected ev"
  shows "(\<exists>w'. run E evs w = Inr w'
            \<and> disconnects w \<le> disconnects w'
            \<and> disconnects w' \<le> Suc (disconnects w)
            \<and> (disconnectEmitted (this w) \<longrightarrow> disconnects w' = disconnects w))
         \<and> (\<exists>w'. step E (Sock_open h) w = Inr w' \<and> \<not> disconnectEmitted (this w')
               \<and> emitted_events w' = emitted_events w @ [Connected])
         \<and> (\<not> disconnectEmitted (this w) \<and> closeOnce (socks w h) \<longrightarrow>
              (\<exists>w'. step E (Sock_closed h code reason) w = Inr w' \<and> disconnectEmitted (this w')
                 \<and> emitted_events w' = emitted_events w @ [Disconnected code reason]))"
proof -
  obtain w' where r: "run E evs w = Inr w'" and m: "budget w' \<le> budget w"
    and lo: "disconnects w \<le> disconnects w'"
    and f: "disconnectEmitted (this w) \<longrightarrow> disconnectEmitted (this w')"
    using close_or_unexpected_run [OF assms] by blast
  have a: "disconnects w' \<le> Suc (disconnects w)"
    using m by (simp add: budget_def split: if_splits)
  have b: "disconnectEmitted (this w) \<longrightarrow> disconnects w' = disconnects w"
    using m f lo by (auto simp: budget_def)
  have c: "\<exists>w'. step E (Sock_open h) w = Inr w' \<and> \<not> disconnectEmitted (this w')
               \<and> emitted_events w' = emitted_events w @ [Connected]"
    by (simp add: step_def on_open_def emit_def set_disconnectEmitted_def set_readyState_def)
  have d: "\<not> disconnectEmitted (this w) \<and> closeOnce (socks w h) \<longrightarrow>
              (\<exists>w'. step E (Sock_closed h code reason) w = Inr w' \<and> disconnectEmitted (this w')
                 \<and> emitted_events w' = emitted_events w @ [Disconnected code reason])"
  proof (intro impI)
    assume h: "\<not> disconnectEmitted (this w) \<and> closeOnce (socks w h)"
    let ?w = "(set_readyState h CLOSED w)
              \<lparr>socks := (socks (set_readyState h CLOSED w))
                 (h := (socks (set_readyState h CLOSED w) h)\<lparr>closeOnce := False\<rparr>)\<rparr>"
    have "step E (Sock_closed h code reason) w = on_close code reason ?w"
      using h by (simp add: step_def set_readyState_def)
    then show "\<exists>w'. step E (Sock_closed h code reason) w = Inr w' \<and> disconnectEmitted (this w')
                 \<and> emitted_events w' = emitted_events w @ [Disconnected code reason]"
      using on_close_emits [of code reason ?w] h by (auto simp: set_readyState_def)
  qed
  show ?thesis
    using r lo a b c d by blast
qed

text \<open>
  C7. One episode on the open connection: a ping arrives and no second one, so the
  liveness timer runs out; the reconnect timer it sets runs out and \<open>connect\<close>
  requests the close of the handle; the handle closes. The timeout callback emits
  \<open>disconnected\<close> without reading or setting the flag that the close and
  unexpected-response listeners share, so the close listener finds the flag clear and
  emits \<open>disconnected\<close> a second time in the same episode.
\<close>

theorem ping_timeout_then_close_emits_twice:
  "outcome emitted_events
     (run demo [App_connect, Sock_open 0, Sock_ping 0, Timer_fire 0, Timer_fire 1,
                Sock_closed 0 1005 []] demo_world) =
   Some [Connected, Disconnected 0 ''Ping timeout'', Disconnected 1005 []]"
  by (simp add: demo_defs step_def connect_def open_socket_def on_open_def on_close_def
        on_ping_def reconnect_timeout_def ping_timeout_def schedule_reconnect_def emit_def
        act_def sock_close_def setTimeout_def clearTimeout_def set_socket_def
        set_disconnectEmitted_def set_readyState_def bind_exn_def outcome_def ADDRESS_def
        Let_def emitted_events_def closed_sock_def)

subsection \<open>The liveness timer\<close>

text \<open>
  The open listener sets no timer and leaves \<open>_pingTimeout\<close> as it was, and
  \<open>connect\<close> leaves \<open>_pingTimeout\<close> \<open>null\<close>.
\<close>

lemma open_arms_no_timer:
  "\<exists>w'. step E (Sock_open h) w = Inr w' \<and> timers w' = timers w \<and> nextTimer w' = nextTimer w
      \<and> pingTimeout (this w') = pingTimeout (this w)
      \<and> trace w' = trace w @ [Emit Connected]"
  by (simp add: step_def on_open_def emit_def act_def set_disconnectEmitted_def set_readyState_def)

lemma connect_clears_ping_timer: "pingTimeout (this (connect w)) = None"
  by (simp add: connect_def open_socket_def set_socket_def sock_close_def clearTimeout_def act_def
        Let_def split: option.splits)






subsection \<open>One handle at a time\<close>

lemma uc_act [simp]: "untracked_closing (act a w) = untracked_closing w"
  by (simp add: untracked_closing_def act_def)

lemma uc_timers [simp]:
  "untracked_closing (w\<lparr>timers := t\<rparr>) = untracked_closing w"
  "untracked_closing (w\<lparr>nextTimer := n\<rparr>) = untracked_closing w"
  "untracked_closing (w\<lparr>trace := tr\<rparr>) = untracked_closing w"
  by (simp_all add: untracked_closing_def)

lemma uc_this [simp]:
  "socket p = socket (this w) \<Longrightarrow> untracked_closing (w\<lparr>this := p\<rparr>) = untracked_closing w"
  by (simp add: untracked_closing_def)

lemma uc_clearTimeout [simp]: "untracked_closing (clearTimeout t w) = untracked_closing w"
  by (simp add: clearTimeout_def)

lemma uc_schedule_reconnect [simp]: "untracked_closing (schedule_reconnect w) = untracked_closing w"
  by (simp add: schedule_reconnect_def setTimeout_def)

lemma uc_sock_close: "untracked_closing w \<Longrightarrow> untracked_closing (sock_close h w)"
  by (simp add: sock_close_def untracked_closing_def act_def)

lemma connect_busy:
  assumes "socket (this w) = Some h" and "readyState (socks w h) \<noteq> CLOSED"
  shows "socket (this (connect w)) = Some h"
    and "nextSock (connect w) = nextSock w"
    and "socks (connect w) = (socks w)(h := (socks w h)\<lparr>readyState := CLOSING\<rparr>)"
    and "trace (connect w) =
           trace w @ (case pingTimeout (this w) of None \<Rightarrow> [] | Some t \<Rightarrow> [ClearTimeout t])
             @ [CloseSock h]"
  using assms
  by (simp_all add: connect_def sock_close_def clearTimeout_def act_def Let_def
        split: option.splits)

lemma connect_fresh:
  assumes "socket (this w) = None \<or> (\<exists>h. socket (this w) = Some h \<and> readyState (socks w h) = CLOSED)"
  shows "socket (this (connect w)) = Some (nextSock w)"
    and "nextSock (connect w) = Suc (nextSock w)"
    and "socks (connect w) =
           (socks w)(nextSock w := \<lparr>address = ADDRESS @ ''/'' @ clientId (this w),
                                   readyState = CONNECTING, closeOnce = True,
                                   unexpectedOnce = True\<rparr>)"
    and "trace (connect w) =
           trace w @ (case pingTimeout (this w) of None \<Rightarrow> [] | Some t \<Rightarrow> [ClearTimeout t])
             @ [NewSock (nextSock w) (ADDRESS @ ''/'' @ clientId (this w))]"
  using assms
  by (auto simp: connect_def open_socket_def set_socket_def clearTimeout_def act_def Let_def
        split: option.splits)

lemma uc_connect:
  assumes "untracked_closing w"
  shows "untracked_closing (connect w)"
proof (cases "\<exists>h. socket (this w) = Some h \<and> readyState (socks w h) \<noteq> CLOSED")
  case True
  then obtain h where h: "socket (this w) = Some h" "readyState (socks w h) \<noteq> CLOSED"
    by blast
  show ?thesis
    using assms h(1) connect_busy(1,3) [OF h] by (auto simp: untracked_closing_def)
next
  case False
  then have f: "socket (this w) = None \<or> (\<exists>h. socket (this w) = Some h \<and> readyState (socks w h) = CLOSED)"
    by (cases "socket (this w)") auto
  show ?thesis
    unfolding untracked_closing_def
  proof (intro allI impI)
    fix h
    assume "socket (this (connect w)) \<noteq> Some h"
    then have ne: "h \<noteq> nextSock w"
      using connect_fresh(1) [OF f] by auto
    have "readyState (socks w h) \<in> {CLOSING, CLOSED}"
    proof (cases "socket (this w) = Some h")
      case True
      then have "readyState (socks w h) = CLOSED"
        using f by auto
      then show ?thesis by simp
    next
      case False
      then show ?thesis
        using assms by (simp add: untracked_closing_def)
    qed
    then show "readyState (socks (connect w) h) \<in> {CLOSING, CLOSED}"
      using ne connect_fresh(3) [OF f] by simp
  qed
qed

lemma uc_on_ping: "untracked_closing w \<Longrightarrow> untracked_closing (on_ping w)"
  by (simp add: on_ping_def setTimeout_def Let_def split: option.splits)

lemma uc_sendReply: "untracked_closing w \<Longrightarrow> untracked_closing (snd (sendReply E mid payload w))"
  by (simp add: sendReply_def sock_send_def Let_def split: option.splits)

lemma uc_drop_socket:
  "untracked_closing w \<Longrightarrow> socket (this w) = Some h \<Longrightarrow>
   readyState (socks w h) \<in> {CLOSING, CLOSED} \<Longrightarrow> untracked_closing (set_socket None w)"
  by (auto simp: untracked_closing_def set_socket_def)

lemma uc_set_reconnect [simp]: "untracked_closing (set_reconnect b w) = untracked_closing w"
  by (simp add: set_reconnect_def)

lemma uc_handleChallenge:
  assumes "untracked_closing w" and "handleChallenge E mid payload w = Inr w'"
  shows "untracked_closing w'"
proof (cases "get_challenge payload")
  case (Inl e)
  then show ?thesis using assms by (simp add: handleChallenge_def bind_exn_def)
next
  case (Inr c)
  show ?thesis
  proof (cases "decrypt_challenge E (privateKey (this w)) c")
    case (Some response)
    then show ?thesis
      using assms Inr by (auto simp: handleChallenge_def bind_exn_def uc_sendReply)
  next
    case None
    show ?thesis
    proof (cases "socket (this w)")
      case no: None
      then show ?thesis
        using assms Inr None
        by (auto simp: handleChallenge_def bind_exn_def dest!: emit_Inr split: sum.splits)
    next
      case (Some h)
      let ?w1 = "act (Emit (ErrorEvent decrypt_failed)) w"
      let ?w2 = "set_reconnect False ?w1"
      let ?w3 = "if readyState (socks ?w2 h) \<noteq> CLOSED then sock_close h ?w2 else ?w2"
      have w': "w' = set_socket None ?w3"
        using assms(2) Inr None Some
        by (auto simp: handleChallenge_def bind_exn_def Let_def set_reconnect_def
              dest!: emit_Inr split: sum.splits)
      have "untracked_closing ?w3"
        using assms(1) by (simp add: uc_sock_close)
      moreover have "socket (this ?w3) = Some h"
        using Some by (simp add: sock_close_def set_reconnect_def)
      moreover have "readyState (socks ?w3 h) \<in> {CLOSING, CLOSED}"
        by (simp add: sock_close_def set_reconnect_def act_def)
      ultimately show ?thesis
        unfolding w' by (rule uc_drop_socket)
    qed
  qed
qed

lemma uc_processMessage:
  "untracked_closing w \<Longrightarrow> processMessage E msg w = Inr w' \<Longrightarrow> untracked_closing w'"
  by (auto simp: processMessage_def dispatch_def dest!: emit_Inr dest: uc_handleChallenge
        split: option.splits if_splits)

lemma uc_on_close:
  "untracked_closing w \<Longrightarrow> on_close code reason w = Inr w' \<Longrightarrow> untracked_closing w'"
  by (auto simp: on_close_def bind_exn_def set_disconnectEmitted_def
        dest!: emit_Inr split: if_splits sum.splits)

lemma uc_on_unexpected_response:
  "untracked_closing w \<Longrightarrow> on_unexpected_response statusCode w = Inr w' \<Longrightarrow> untracked_closing w'"
  by (auto simp: on_unexpected_response_def bind_exn_def set_disconnectEmitted_def
        dest!: emit_Inr split: if_splits sum.splits)

lemma uc_socks_update:
  assumes "untracked_closing w"
    and "socket (this w) = Some h \<or> readyState s \<in> {CLOSING, CLOSED}"
  shows "untracked_closing (w\<lparr>socks := (socks w)(h := s)\<rparr>)"
  using assms by (auto simp: untracked_closing_def)

lemma uc_step:
  assumes "untracked_closing w" and "enabled w ev" and "step E ev w = Inr w'"
  shows "untracked_closing w'"
proof (cases ev)
  case App_connect
  then show ?thesis using assms by (auto simp: step_def uc_connect)
next
  case (App_reply f err response)
  then show ?thesis using assms by (cases f) (auto simp: step_def uc_sendReply)
next
  case (Sock_open h)
  then have "socket (this w) = Some h"
    using assms(1,2) by (auto simp: untracked_closing_def)
  then have "untracked_closing (set_readyState h OPEN w)"
    unfolding set_readyState_def using assms(1) by (intro uc_socks_update) simp_all
  then show ?thesis
    using assms(3) Sock_open
    by (auto simp: step_def on_open_def set_disconnectEmitted_def dest!: emit_Inr)
next
  case (Sock_closed h code reason)
  have a: "untracked_closing (set_readyState h CLOSED w)"
    unfolding set_readyState_def using assms(1) by (intro uc_socks_update) simp_all
  then have "untracked_closing ((set_readyState h CLOSED w)
               \<lparr>socks := (socks (set_readyState h CLOSED w))
                  (h := (socks (set_readyState h CLOSED w) h)\<lparr>closeOnce := False\<rparr>)\<rparr>)"
    by (intro uc_socks_update) (simp_all add: set_readyState_def)
  then show ?thesis
    using assms(3) Sock_closed a
    by (auto simp: step_def Let_def dest: uc_on_close split: if_splits)
next
  case (Sock_unexpected h statusCode)
  have "socket (this w) = Some h"
    using assms(1,2) Sock_unexpected by (auto simp: untracked_closing_def)
  then have "untracked_closing (w\<lparr>socks := (socks w)(h := (socks w h)\<lparr>unexpectedOnce := False\<rparr>)\<rparr>)"
    using assms(1) by (intro uc_socks_update) simp_all
  then show ?thesis
    using assms(1,3) Sock_unexpected
    by (auto simp: step_def dest: uc_on_unexpected_response split: if_splits)
next
  case (Sock_error h err)
  then show ?thesis using assms
    by (auto simp: step_def on_error_def dest!: emit_Inr split: if_splits)
next
  case (Sock_message h data)
  then show ?thesis using assms by (auto simp: step_def on_message_def dest: uc_processMessage)
next
  case (Sock_ping h)
  then show ?thesis using assms by (auto simp: step_def uc_on_ping)
next
  case (Timer_fire t)
  then show ?thesis using assms
    by (auto simp: step_def reconnect_timeout_def ping_timeout_def bind_exn_def Let_def
          intro!: uc_connect dest!: emit_Inr split: option.splits timer.splits if_splits sum.splits)
qed

lemma reachable_untracked_closing: "reachable E w \<Longrightarrow> untracked_closing w"
proof (induction rule: reachable.induct)
  case (reach_start cid key ov p listens)
  then show ?case
    by (simp add: untracked_closing_def init_world_def closed_sock_def)
next
  case (reach_step w ev w')
  then show ?case by (blast intro: uc_step)
qed


text \<open>
  C8, as stated: after a failed handshake the instance has requested the close of
  handle 0 and let go of it. \<open>connect\<close> is called before the close event of that
  handle: handle 0 is still closing, and handle 1 is created next to it.
\<close>

theorem new_handle_beside_closing_counterexample:
  "outcome (\<lambda>w. (readyState (socks w 0), readyState (socks w 1), socket (this w), trace w))
     (run demo [App_connect, Sock_open 0, Sock_message 0 bad_challenge_frame, App_connect]
        demo_world) =
   Some (CLOSING, CONNECTING, Some 1,
         [NewSock 0 ''wss://ws.webhookify.net/client'', Emit Connected,
          Emit (ErrorEvent ''The provided private key failed to decrypt the challenge.''),
          CloseSock 0, NewSock 1 ''wss://ws.webhookify.net/client''])"
  by code_simp

text \<open>
  C8, amended. In every reachable world at most one handle is connecting or open.
  When \<open>connect\<close> is called while the handle the instance holds is not closed, it
  requests the close of that handle and returns: no handle is created and the
  instance keeps the handle. \<open>connect\<close> creates a handle only when the instance
  holds none or a closed one; the new handle is connecting and the instance holds it.
\<close>

theorem one_active_handle:
  assumes "reachable E w"
  shows "(\<forall>h h'. readyState (socks w h) \<in> {CONNECTING, OPEN}
               \<and> readyState (socks w h') \<in> {CONNECTING, OPEN} \<longrightarrow> h = h')
         \<and> (\<forall>h. socket (this w) = Some h \<and> readyState (socks w h) \<noteq> CLOSED \<longrightarrow>
                socket (this (connect w)) = Some h
                \<and> nextSock (connect w) = nextSock w
                \<and> readyState (socks (connect w) h) = CLOSING
                \<and> trace (connect w) =
                    trace w @ (case pingTimeout (this w) of None \<Rightarrow> [] | Some t \<Rightarrow> [ClearTimeout t])
                      @ [CloseSock h])
         \<and> (nextSock (connect w) \<noteq> nextSock w \<longrightarrow>
               socket (this w) = None
               \<or> (\<exists>h. socket (this w) = Some h \<and> readyState (socks w h) = CLOSED))
         \<and> (socket (this w) = None
             \<or> (\<exists>h. socket (this w) = Some h \<and> readyState (socks w h) = CLOSED) \<longrightarrow>
               socket (this (connect w)) = Some (nextSock w)
               \<and> nextSock (connect w) = Suc (nextSock w)
               \<and> readyState (socks (connect w) (nextSock w)) = CONNECTING
               \<and> trace (connect w) =
                   trace w @ (case pingTimeout (this w) of None \<Rightarrow> [] | Some t \<Rightarrow> [ClearTimeout t])
                     @ [NewSock (nextSock w) (ADDRESS @ ''/'' @ clientId (this w))])"
proof -
  have uc: "untracked_closing w"
    using assms by (rule reachable_untracked_closing)
  have one: "\<forall>h h'. readyState (socks w h) \<in> {CONNECTING, OPEN}
               \<and> readyState (socks w h') \<in> {CONNECTING, OPEN} \<longrightarrow> h = h'"
  proof (intro allI impI)
    fix h h'
    assume a: "readyState (socks w h) \<in> {CONNECTING, OPEN}
               \<and> readyState (socks w h') \<in> {CONNECTING, OPEN}"
    have "socket (this w) = Some h"
      using uc a unfolding untracked_closing_def by (cases "socket (this w) = Some h") auto
    moreover have "socket (this w) = Some h'"
      using uc a unfolding untracked_closing_def by (cases "socket (this w) = Some h'") auto
    ultimately show "h = h'" by simp
  qed
  have busy: "\<forall>h. socket (this w) = Some h \<and> readyState (socks w h) \<noteq> CLOSED \<longrightarrow>
                socket (this (connect w)) = Some h
                \<and> nextSock (connect w) = nextSock w
                \<and> readyState (socks (connect w) h) = CLOSING
                \<and> trace (connect w) =
                    trace w @ (case pingTimeout (this w) of None \<Rightarrow> [] | Some t \<Rightarrow> [ClearTimeout t])
                      @ [CloseSock h]"
    using connect_busy by simp
  have only: "nextSock (connect w) \<noteq> nextSock w \<longrightarrow>
               socket (this w) = None
               \<or> (\<exists>h. socket (this w) = Some h \<and> readyState (socks w h) = CLOSED)"
    using connect_busy(2) by (cases "socket (this w)") auto
  have fresh: "socket (this w) = None
             \<or> (\<exists>h. socket (this w) = Some h \<and> readyState (socks w h) = CLOSED) \<longrightarrow>
               socket (this (connect w)) = Some (nextSock w)
               \<and> nextSock (connect w) = Suc (nextSock w)
               \<and> readyState (socks (connect w) (nextSock w)) = CONNECTING
               \<and> trace (connect w) =
                   trace w @ (case pingTimeout (this w) of None \<Rightarrow> [] | Some t \<Rightarrow> [ClearTimeout t])
                     @ [NewSock (nextSock w) (ADDRESS @ ''/'' @ clientId (this w))]"
    using connect_fresh by simp
  show ?thesis
    using one busy only fresh by blast
qed

lemma reachable_demo_open_world: "reachable demo demo_open_world"
proof -
  have c: "constructor (Some ''client'') (Some ''PEM'') VUndefined = Inr demo_protocol"
    by (simp add: constructor_def mergeOptions_def default_options_def read_options_def
          get_property_def defaults_def demo_protocol_def)
  have r0: "reachable demo demo_world"
    unfolding demo_world_def using c by (rule reach_start)
  obtain w1 where s1: "step demo App_connect demo_world = Inr w1"
    by (simp add: step_def)
  have r1: "reachable demo w1"
    using r0 _ s1 by (rule reach_step) simp
  have w1: "w1 = connect demo_world"
    using s1 by (simp add: step_def)
  have e: "enabled w1 (Sock_open 0)"
    unfolding w1
    by (simp add: demo_defs connect_def open_socket_def act_def set_socket_def Let_def)
  have s2: "step demo (Sock_open 0) w1 = Inr demo_open_world"
    unfolding w1 demo_open_world_eq
    by (simp add: demo_defs step_def connect_def open_socket_def on_open_def emit_def
          act_def set_socket_def set_disconnectEmitted_def set_readyState_def
          ADDRESS_def Let_def)
  show ?thesis
    using r1 e s2 by (rule reach_step)
qed

theorem one_active_handle_witness:
  "socket (this (connect demo_open_world)) = Some 0
   \<and> nextSock (connect demo_open_world) = 1
   \<and> readyState (socks (connect demo_open_world) 0) = CLOSING
   \<and> trace (connect demo_open_world) =
       [NewSock 0 ''wss://ws.webhookify.net/client'', Emit Connected, CloseSock 0]"
proof -
  have a: "socket (this demo_open_world) = Some 0 \<and> readyState (socks demo_open_world 0) \<noteq> CLOSED"
    by (simp add: demo_open_world_eq)
  have "socket (this (connect demo_open_world)) = Some 0
                \<and> nextSock (connect demo_open_world) = nextSock demo_open_world
                \<and> readyState (socks (connect demo_open_world) 0) = CLOSING
                \<and> trace (connect demo_open_world) =
                    trace demo_open_world
                      @ (case pingTimeout (this demo_open_world) of None \<Rightarrow> [] | Some t \<Rightarrow> [ClearTimeout t])
                      @ [CloseSock 0]"
    using one_active_handle [OF reachable_demo_open_world] a by blast
  then show ?thesis
    by (simp add: demo_open_world_eq)
qed

subsection \<open>A failed handshake on a connection\<close>

lemma connect_holds_handle: "socket (this (connect w)) \<noteq> None"
  by (simp add: connect_def open_socket_def set_socket_def sock_close_def clearTimeout_def act_def
        Let_def split: option.splits)

lemma connect_nextSock: "nextSock w \<le> nextSock (connect w)"
  by (simp add: connect_def open_socket_def set_socket_def sock_close_def clearTimeout_def act_def
        Let_def split: option.splits)

lemma fc_act [simp]: "fresh_closed (act a w) = fresh_closed w"
  by (simp add: fresh_closed_def act_def)

lemma fc_updates [simp]:
  "fresh_closed (w\<lparr>timers := t\<rparr>) = fresh_closed w"
  "fresh_closed (w\<lparr>nextTimer := n\<rparr>) = fresh_closed w"
  "fresh_closed (w\<lparr>trace := tr\<rparr>) = fresh_closed w"
  "fresh_closed (w\<lparr>this := p\<rparr>) = fresh_closed w"
  by (simp_all add: fresh_closed_def)

lemma fc_clearTimeout [simp]: "fresh_closed (clearTimeout t w) = fresh_closed w"
  by (simp add: clearTimeout_def)

lemma fc_schedule_reconnect [simp]: "fresh_closed (schedule_reconnect w) = fresh_closed w"
  by (simp add: schedule_reconnect_def setTimeout_def)

lemma fc_set_socket [simp]: "fresh_closed (set_socket s w) = fresh_closed w"
  by (simp add: set_socket_def)

lemma fc_set_reconnect [simp]: "fresh_closed (set_reconnect b w) = fresh_closed w"
  by (simp add: set_reconnect_def)

lemma fc_set_disconnectEmitted [simp]: "fresh_closed (set_disconnectEmitted b w) = fresh_closed w"
  by (simp add: set_disconnectEmitted_def)

lemma fc_sock_close: "fresh_closed w \<Longrightarrow> fresh_closed (sock_close h w)"
  by (auto simp: sock_close_def fresh_closed_def act_def)

lemma fc_open_socket: "fresh_closed w \<Longrightarrow> fresh_closed (open_socket w)"
  by (simp add: open_socket_def fresh_closed_def act_def set_socket_def Let_def)

lemma fc_connect: "fresh_closed w \<Longrightarrow> fresh_closed (connect w)"
  by (auto simp: connect_def Let_def intro!: fc_sock_close fc_open_socket split: option.splits)

lemma fc_on_ping: "fresh_closed w \<Longrightarrow> fresh_closed (on_ping w)"
  by (simp add: on_ping_def setTimeout_def Let_def split: option.splits)

lemma fc_sendReply: "fresh_closed w \<Longrightarrow> fresh_closed (snd (sendReply E mid payload w))"
  by (simp add: sendReply_def sock_send_def Let_def split: option.splits)

lemma fc_handleChallenge:
  "fresh_closed w \<Longrightarrow> handleChallenge E mid payload w = Inr w' \<Longrightarrow> fresh_closed w'"
  by (auto simp: handleChallenge_def bind_exn_def Let_def fc_sendReply
        intro!: fc_sock_close dest!: emit_Inr split: sum.splits option.splits if_splits)

lemma fc_processMessage:
  "fresh_closed w \<Longrightarrow> processMessage E msg w = Inr w' \<Longrightarrow> fresh_closed w'"
  by (auto simp: processMessage_def dispatch_def dest!: emit_Inr dest: fc_handleChallenge
        split: option.splits if_splits)

lemma fc_on_close:
  "fresh_closed w \<Longrightarrow> on_close code reason w = Inr w' \<Longrightarrow> fresh_closed w'"
  by (auto simp: on_close_def bind_exn_def dest!: emit_Inr split: if_splits sum.splits)

lemma fc_on_unexpected_response:
  "fresh_closed w \<Longrightarrow> on_unexpected_response statusCode w = Inr w' \<Longrightarrow> fresh_closed w'"
  by (auto simp: on_unexpected_response_def bind_exn_def dest!: emit_Inr split: if_splits sum.splits)

lemma fc_socks_update:
  assumes "fresh_closed w" and "h < nextSock w \<or> readyState s = CLOSED"
  shows "fresh_closed (w\<lparr>socks := (socks w)(h := s)\<rparr>)"
  using assms by (auto simp: fresh_closed_def)

lemma fc_created: "fresh_closed w \<Longrightarrow> readyState (socks w h) \<noteq> CLOSED \<Longrightarrow> h < nextSock w"
  unfolding fresh_closed_def by (cases "h < nextSock w") auto

lemma fc_step:
  assumes "fresh_closed w" and "enabled w ev" and "step E ev w = Inr w'"
  shows "fresh_closed w'"
proof (cases ev)
  case App_connect
  then show ?thesis using assms by (auto simp: step_def fc_connect)
next
  case (App_reply f err response)
  then show ?thesis using assms by (cases f) (auto simp: step_def fc_sendReply)
next
  case (Sock_open h)
  then have "h < nextSock w"
    using assms(1,2) by (auto intro: fc_created)
  then have "fresh_closed (set_readyState h OPEN w)"
    unfolding set_readyState_def using assms(1) by (intro fc_socks_update) simp_all
  then show ?thesis
    using assms(3) Sock_open by (auto simp: step_def on_open_def dest!: emit_Inr)
next
  case (Sock_closed h code reason)
  have a: "fresh_closed (set_readyState h CLOSED w)"
    unfolding set_readyState_def using assms(1) by (intro fc_socks_update) simp_all
  then have "fresh_closed ((set_readyState h CLOSED w)
               \<lparr>socks := (socks (set_readyState h CLOSED w))
                  (h := (socks (set_readyState h CLOSED w) h)\<lparr>closeOnce := False\<rparr>)\<rparr>)"
    by (intro fc_socks_update) (simp_all add: set_readyState_def)
  then show ?thesis
    using assms(3) Sock_closed a
    by (auto simp: step_def Let_def dest: fc_on_close split: if_splits)
next
  case (Sock_unexpected h statusCode)
  then have "h < nextSock w"
    using assms(1,2) by (auto intro: fc_created)
  then have "fresh_closed (w\<lparr>socks := (socks w)(h := (socks w h)\<lparr>unexpectedOnce := False\<rparr>)\<rparr>)"
    using assms(1) by (intro fc_socks_update) simp_all
  then show ?thesis
    using assms(1,3) Sock_unexpected
    by (auto simp: step_def dest: fc_on_unexpected_response split: if_splits)
next
  case (Sock_error h err)
  then show ?thesis using assms
    by (auto simp: step_def on_error_def dest!: emit_Inr split: if_splits)
next
  case (Sock_message h data)
  then show ?thesis using assms by (auto simp: step_def on_message_def dest: fc_processMessage)
next
  case (Sock_ping h)
  then show ?thesis using assms by (auto simp: step_def fc_on_ping)
next
  case (Timer_fire t)
  then show ?thesis using assms
    by (auto simp: step_def reconnect_timeout_def ping_timeout_def bind_exn_def Let_def
          intro!: fc_connect dest!: emit_Inr split: option.splits timer.splits if_splits sum.splits)
qed

lemma reachable_fresh_closed: "reachable E w \<Longrightarrow> fresh_closed w"
proof (induction rule: reachable.induct)
  case (reach_start cid key ov p listens)
  then show ?case
    by (simp add: fresh_closed_def init_world_def closed_sock_def)
next
  case (reach_step w ev w')
  then show ?case by (blast intro: fc_step)
qed

lemma dmd_act [simp]: "dropped_means_disabled (act a w) = dropped_means_disabled w"
  by (simp add: dropped_means_disabled_def act_def)

lemma dmd_updates [simp]:
  "dropped_means_disabled (w\<lparr>timers := t\<rparr>) = dropped_means_disabled w"
  "dropped_means_disabled (w\<lparr>nextTimer := n\<rparr>) = dropped_means_disabled w"
  "dropped_means_disabled (w\<lparr>trace := tr\<rparr>) = dropped_means_disabled w"
  "dropped_means_disabled (w\<lparr>socks := s\<rparr>) = dropped_means_disabled w"
  by (simp_all add: dropped_means_disabled_def)

lemma dmd_this:
  "socket p = socket (this w) \<Longrightarrow> opts p = opts (this w) \<Longrightarrow>
   dropped_means_disabled (w\<lparr>this := p\<rparr>) = dropped_means_disabled w"
  by (simp add: dropped_means_disabled_def)

lemma dmd_clearTimeout [simp]: "dropped_means_disabled (clearTimeout t w) = dropped_means_disabled w"
  by (simp add: clearTimeout_def)

lemma dmd_schedule_reconnect [simp]:
  "dropped_means_disabled (schedule_reconnect w) = dropped_means_disabled w"
  by (simp add: schedule_reconnect_def setTimeout_def dmd_this)

lemma dmd_set_disconnectEmitted [simp]:
  "dropped_means_disabled (set_disconnectEmitted b w) = dropped_means_disabled w"
  by (simp add: set_disconnectEmitted_def dmd_this)

lemma dmd_set_readyState [simp]:
  "dropped_means_disabled (set_readyState h r w) = dropped_means_disabled w"
  by (simp add: set_readyState_def)

lemma dmd_connect: "dropped_means_disabled (connect w)"
  using connect_holds_handle [of w] by (auto simp: dropped_means_disabled_def)

lemma dmd_on_ping: "dropped_means_disabled w \<Longrightarrow> dropped_means_disabled (on_ping w)"
  by (simp add: on_ping_def setTimeout_def Let_def dmd_this split: option.splits)

lemma dmd_sendReply:
  "dropped_means_disabled w \<Longrightarrow> dropped_means_disabled (snd (sendReply E mid payload w))"
  by (simp add: sendReply_def sock_send_def Let_def split: option.splits)

lemma dmd_handleChallenge:
  "dropped_means_disabled w \<Longrightarrow> handleChallenge E mid payload w = Inr w' \<Longrightarrow>
   dropped_means_disabled w'"
  by (auto simp: handleChallenge_def bind_exn_def Let_def dmd_sendReply
        dropped_means_disabled_def set_socket_def set_reconnect_def sock_close_def act_def
        sendReply_def sock_send_def
        dest!: emit_Inr split: sum.splits option.splits if_splits)

lemma dmd_processMessage:
  "dropped_means_disabled w \<Longrightarrow> processMessage E msg w = Inr w' \<Longrightarrow> dropped_means_disabled w'"
  by (auto simp: processMessage_def dispatch_def dest!: emit_Inr dest: dmd_handleChallenge
        split: option.splits if_splits)

lemma dmd_step:
  assumes "dropped_means_disabled w" and "step E ev w = Inr w'"
  shows "dropped_means_disabled w'"
proof (cases ev)
  case App_connect
  then show ?thesis using assms by (auto simp: step_def dmd_connect)
next
  case (App_reply f err response)
  then show ?thesis using assms by (cases f) (auto simp: step_def dmd_sendReply)
next
  case (Sock_open h)
  then show ?thesis using assms by (auto simp: step_def on_open_def dest!: emit_Inr)
next
  case (Sock_closed h code reason)
  then show ?thesis using assms
    by (auto simp: step_def on_close_def bind_exn_def Let_def
          dest!: emit_Inr split: if_splits sum.splits)
next
  case (Sock_unexpected h statusCode)
  then show ?thesis using assms
    by (auto simp: step_def on_unexpected_response_def bind_exn_def
          dest!: emit_Inr split: if_splits sum.splits)
next
  case (Sock_error h err)
  then show ?thesis using assms
    by (auto simp: step_def on_error_def dest!: emit_Inr split: if_splits)
next
  case (Sock_message h data)
  then show ?thesis using assms by (auto simp: step_def on_message_def dest: dmd_processMessage)
next
  case (Sock_ping h)
  then show ?thesis using assms by (auto simp: step_def dmd_on_ping)
next
  case (Timer_fire t)
  then show ?thesis using assms
    by (auto simp: step_def reconnect_timeout_def ping_timeout_def bind_exn_def Let_def dmd_this
          intro!: dmd_connect dest!: emit_Inr split: option.splits timer.splits if_splits sum.splits)
qed

lemma reachable_dropped_means_disabled: "reachable E w \<Longrightarrow> dropped_means_disabled w"
proof (induction rule: reachable.induct)
  case (reach_start cid key ov p listens)
  then show ?case
    by (simp add: dropped_means_disabled_def init_world_def)
next
  case (reach_step w ev w')
  then show ?case by (blast intro: dmd_step)
qed


lemma handleChallenge_failure_any:
  assumes "get_challenge payload = Inr c"
    and "decrypt_challenge E (privateKey (this w)) c = None"
    and "errorListener w"
  shows "\<exists>w'. handleChallenge E mid payload w = Inr w'
           \<and> emitted_events w' = emitted_events w @ [ErrorEvent decrypt_failed]
           \<and> sent_frames w' = sent_frames w
           \<and> socket (this w') = None
           \<and> (socket (this w) \<noteq> None \<longrightarrow> \<not> reconnect (opts (this w')))
           \<and> (socket (this w) = None \<longrightarrow> opts (this w') = opts (this w))
           \<and> nextSock w' = nextSock w
           \<and> trace w' = trace w @ Emit (ErrorEvent decrypt_failed) #
                (case socket (this w) of
                   None \<Rightarrow> []
                 | Some k \<Rightarrow> if readyState (socks w k) \<noteq> CLOSED then [CloseSock k] else [])"
  using assms
  by (cases "socket (this w)")
     (simp_all add: handleChallenge_def bind_exn_def emit_def Let_def set_socket_def
        set_reconnect_def sock_close_def emitted_events_def sent_frames_def act_def)

text \<open>
  C2, as stated: nothing listens to \<open>error\<close> when the challenge that fails to decrypt
  arrives on the open handle 0. \<open>emit\<close> throws the error it was given, as the first
  statement of the \<open>catch\<close>; the statements after it do not run, so reconnection is
  still enabled and the instance still holds the open handle.
\<close>

theorem unheard_error_counterexample:
  "thrown (run demo [App_connect, Sock_open 0, Sock_message 0 bad_challenge_frame]
             (init_world demo_protocol False)) =
     Some (UnhandledError ''The provided private key failed to decrypt the challenge.'')
   \<and> outcome (\<lambda>w. (reconnect (opts (this w)), socket (this w), readyState (socks w 0), trace w))
       (run demo [App_connect, Sock_open 0] (init_world demo_protocol False)) =
     Some (True, Some 0, OPEN, [NewSock 0 ''wss://ws.webhookify.net/client'', Emit Connected])"
  by code_simp

text \<open>
  C2, amended. A connection whose application listens to \<open>error\<close> receives, on one of
  its handles, a challenge frame whose \<open>challenge\<close> throws when decrypted. Then the
  message listener returns without an exception, having emitted exactly one event,
  the error event, and sent nothing; \<open>reconnect\<close> is false and stays false through
  every later run of events; the instance holds no handle: the close of the one it
  held was requested unless it was closed already, and every handle is closing or
  closed. A close event after that sets no timer: the pending timers and
  \<open>_reconnectTimeout\<close> are as before, and the trace grows by a \<open>disconnected\<close> event
  at most.
\<close>

theorem challenge_failure:
  assumes re: "reachable E w"
    and en: "enabled w (Sock_message h msg)"
    and lis: "errorListener w"
    and dec: "decodeMessage E msg = Some m"
    and ty: "m_type m = QStr ''challenge''"
    and ch: "get_challenge (m_payload m) = Inr c"
    and fail: "decrypt_challenge E (privateKey (this w)) c = None"
  shows "\<exists>w'. step E (Sock_message h msg) w = Inr w'
           \<and> emitted_events w' = emitted_events w @ [ErrorEvent decrypt_failed]
           \<and> sent_frames w' = sent_frames w
           \<and> \<not> reconnect (opts (this w'))
           \<and> socket (this w') = None
           \<and> (\<forall>k. readyState (socks w' k) \<in> {CLOSING, CLOSED})
           \<and> trace w' = trace w @ Emit (ErrorEvent decrypt_failed) #
                (case socket (this w) of
                   None \<Rightarrow> []
                 | Some k \<Rightarrow> if readyState (socks w k) \<noteq> CLOSED then [CloseSock k] else [])
           \<and> (\<forall>evs w''. run E evs w' = Inr w'' \<longrightarrow> \<not> reconnect (opts (this w'')))
           \<and> (\<forall>k code reason. \<exists>w''. step E (Sock_closed k code reason) w' = Inr w''
                 \<and> timers w'' = timers w' \<and> nextTimer w'' = nextTimer w'
                 \<and> reconnectTimeout (this w'') = reconnectTimeout (this w')
                 \<and> (trace w'' = trace w' \<or> trace w'' = trace w' @ [Emit (Disconnected code reason)]))"
proof -
  obtain w' where hc: "handleChallenge E (m_id m) (m_payload m) w = Inr w'"
    and ev: "emitted_events w' = emitted_events w @ [ErrorEvent decrypt_failed]"
    and sf: "sent_frames w' = sent_frames w"
    and so: "socket (this w') = None"
    and r1: "socket (this w) \<noteq> None \<longrightarrow> \<not> reconnect (opts (this w'))"
    and r2: "socket (this w) = None \<longrightarrow> opts (this w') = opts (this w)"
    and ns: "nextSock w' = nextSock w"
    and tr: "trace w' = trace w @ Emit (ErrorEvent decrypt_failed) #
                (case socket (this w) of
                   None \<Rightarrow> []
                 | Some k \<Rightarrow> if readyState (socks w k) \<noteq> CLOSED then [CloseSock k] else [])"
    using handleChallenge_failure_any [OF ch fail lis] by blast
  have st: "step E (Sock_message h msg) w = Inr w'"
    using hc by (simp add: step_def on_message_def processMessage_def dec dispatch_def ty)
  have re': "reachable E w'"
    using re en st by (rule reach_step)
  have "readyState (socks w h) \<noteq> CLOSED"
    using en by auto
  then have "h < nextSock w"
    using reachable_fresh_closed [OF re] by (rule fc_created [rotated])
  then have created: "nextSock w \<noteq> 0"
    by simp
  have off: "\<not> reconnect (opts (this w'))"
  proof (cases "socket (this w)")
    case None
    then have "\<not> reconnect (opts (this w))"
      using reachable_dropped_means_disabled [OF re] created
      by (simp add: dropped_means_disabled_def)
    then show ?thesis
      using r2 None by simp
  next
    case (Some k)
    then show ?thesis
      using r1 by simp
  qed
  have closing: "\<forall>k. readyState (socks w' k) \<in> {CLOSING, CLOSED}"
    using reachable_untracked_closing [OF re'] so by (simp add: untracked_closing_def)
  have perm: "\<forall>evs w''. run E evs w' = Inr w'' \<longrightarrow> \<not> reconnect (opts (this w''))"
    using run_keeps_disabled off by blast
  have cl: "\<forall>k code reason. \<exists>w''. step E (Sock_closed k code reason) w' = Inr w''
                 \<and> timers w'' = timers w' \<and> nextTimer w'' = nextTimer w'
                 \<and> reconnectTimeout (this w'') = reconnectTimeout (this w')
                 \<and> (trace w'' = trace w' \<or> trace w'' = trace w' @ [Emit (Disconnected code reason)])"
    using close_without_reconnect [OF off] by blast
  show ?thesis
    using st ev sf off so closing tr perm cl by blast
qed

theorem challenge_failure_witness:
  "\<exists>w'. step demo (Sock_message 0 bad_challenge_frame) demo_open_world = Inr w'
      \<and> emitted_events w' = [Connected, ErrorEvent decrypt_failed]
      \<and> sent_frames w' = []
      \<and> \<not> reconnect (opts (this w'))
      \<and> socket (this w') = None
      \<and> readyState (socks w' 0) \<in> {CLOSING, CLOSED}
      \<and> (\<exists>w''. step demo (Sock_closed 0 1006 []) w' = Inr w'' \<and> timers w'' = timers w')"
proof -
  let ?m = "\<lparr>m_type = QStr ''challenge'', m_id = QStr ''1'', m_plugin = None,
              m_payload = JObj [(''challenge'', JStr ''YmFk'')]\<rparr>"
  have en: "enabled demo_open_world (Sock_message 0 bad_challenge_frame)"
    by (simp add: demo_open_world_eq)
  have lis: "errorListener demo_open_world"
    by (simp add: demo_open_world_eq)
  have dec: "decodeMessage demo bad_challenge_frame = Some ?m"
    by code_simp
  have ty: "m_type ?m = QStr ''challenge''"
    by simp
  have ch: "get_challenge (m_payload ?m) = Inr (Some (JStr ''YmFk''))"
    by simp
  have fail: "decrypt_challenge demo (privateKey (this demo_open_world)) (Some (JStr ''YmFk'')) = None"
    by code_simp
  have ev: "emitted_events demo_open_world = [Connected]"
    by code_simp
  have sf: "sent_frames demo_open_world = []"
    by code_simp
  obtain w' where a: "step demo (Sock_message 0 bad_challenge_frame) demo_open_world = Inr w'"
    "emitted_events w' = [Connected] @ [ErrorEvent decrypt_failed]"
    "sent_frames w' = []"
    "\<not> reconnect (opts (this w'))"
    "socket (this w') = None"
    and b: "\<forall>k. readyState (socks w' k) \<in> {CLOSING, CLOSED}"
    and cl: "\<forall>k code reason. \<exists>w''. step demo (Sock_closed k code reason) w' = Inr w''
                 \<and> timers w'' = timers w' \<and> nextTimer w'' = nextTimer w'
                 \<and> reconnectTimeout (this w'') = reconnectTimeout (this w')
                 \<and> (trace w'' = trace w' \<or> trace w'' = trace w' @ [Emit (Disconnected code reason)])"
    using challenge_failure [OF reachable_demo_open_world en lis dec ty ch fail]
    unfolding ev sf by blast
  obtain w'' where c: "step demo (Sock_closed 0 1006 []) w' = Inr w''" "timers w'' = timers w'"
    using cl by blast
  have "readyState (socks w' 0) \<in> {CLOSING, CLOSED}"
    using b by blast
  then show ?thesis
    using a c by auto
qed

end
